theory Spec2Isabelle
  imports Main "HOL-Library.Word"
begin

section \<open>The environment of the lazy loader\<close>

text \<open>
  The lazy checkpoint loader of \<^verbatim>\<open>lightning/fabric/utilities/load.py\<close> runs on top of
  the tensor library, the archive reader and Python's warning machinery. This section
  models those collaborators as far as the loader uses them; the loader's own functions
  follow in the next section, one definition per source function.

  Every Python callable that can touch the outside is a state transformer on a
  \<open>world\<close>: it takes the world, returns its result (an exception is the \<open>Inl\<close>
  branch) and the world it leaves behind.
\<close>

subsection \<open>Exceptions\<close>

datatype error =
    AttributeError string
  | IOError string
  | TypeError string
  | RuntimeError string

subsection \<open>Element types and storage classes\<close>

datatype dtype =
    Float64 | Float32 | Float16 | BFloat16
  | Int64 | Int32 | Int16 | Int8 | UInt8
  | Bool | Complex64 | Complex128

text \<open>\<^verbatim>\<open>torch._utils._element_size\<close>: the size of one element, in bytes.\<close>

fun element_size :: "dtype \<Rightarrow> nat" where
  "element_size Float64 = 8"
| "element_size Float32 = 4"
| "element_size Float16 = 2"
| "element_size BFloat16 = 2"
| "element_size Int64 = 8"
| "element_size Int32 = 4"
| "element_size Int16 = 2"
| "element_size Int8 = 1"
| "element_size UInt8 = 1"
| "element_size Bool = 1"
| "element_size Complex64 = 8"
| "element_size Complex128 = 16"

text \<open>The legacy storage classes a persistent reference names; \<^verbatim>\<open>cls().dtype\<close>.\<close>

datatype storage_cls =
    DoubleStorage | FloatStorage | HalfStorage | BFloat16Storage
  | LongStorage | IntStorage | ShortStorage | CharStorage | ByteStorage
  | BoolStorage | ComplexFloatStorage | ComplexDoubleStorage

fun cls_dtype :: "storage_cls \<Rightarrow> dtype" where
  "cls_dtype DoubleStorage = Float64"
| "cls_dtype FloatStorage = Float32"
| "cls_dtype HalfStorage = Float16"
| "cls_dtype BFloat16Storage = BFloat16"
| "cls_dtype LongStorage = Int64"
| "cls_dtype IntStorage = Int32"
| "cls_dtype ShortStorage = Int16"
| "cls_dtype CharStorage = Int8"
| "cls_dtype ByteStorage = UInt8"
| "cls_dtype BoolStorage = Bool"
| "cls_dtype ComplexFloatStorage = Complex64"
| "cls_dtype ComplexDoubleStorage = Complex128"

subsection \<open>Storages and tensors\<close>

type_synonym byte = "8 word"

text \<open>
  The persistent-reference tuple \<^verbatim>\<open>(name, cls, fn, device, size)\<close>: logical name,
  storage class, record name, device tag, element count.
\<close>

type_synonym pid = "string \<times> storage_cls \<times> string \<times> string \<times> int"

record untyped_storage =
  us_device :: string
  us_bytes :: "byte list"

text \<open>
  A \<^verbatim>\<open>TypedStorage\<close>. The field \<open>st_archiveinfo\<close> is the attribute
  \<^verbatim>\<open>archiveinfo\<close> that \<^verbatim>\<open>persistent_load\<close> attaches; \<open>None\<close> when the attribute is
  not set.
\<close>

record typed_storage =
  st_dtype :: dtype
  st_untyped :: untyped_storage
  st_archiveinfo :: "pid option"

datatype tensor_type = TensorT | ParameterT | CustomT string

type_synonym hooks = "(nat \<times> string) list"
type_synonym pydict = "(string \<times> string) list"

record tensor =
  t_type :: tensor_type
  t_dtype :: dtype
  t_storage :: untyped_storage
  t_offset :: int
  t_size :: "int list"
  t_stride :: "int list"
  t_requires_grad :: bool
  t_backward_hooks :: hooks
  t_metadata :: pydict
  t_is_param :: bool
  t_attrs :: pydict

subsection \<open>Warnings\<close>

text \<open>
  Python's \<^verbatim>\<open>warnings\<close> module, as far as the loader uses it: a list of filters, the
  first matching one decides; a warning no filter matches is shown. A filter with
  category \<open>None\<close> matches every category, which is what
  \<^verbatim>\<open>warnings.simplefilter("ignore")\<close> installs at the front of the list.
\<close>

datatype category = DeprecationWarning | UserWarning | FutureWarning | RuntimeWarning

type_synonym warning = "category \<times> string"

datatype action = Ignore | Always

type_synonym wfilter = "action \<times> category option"

fun first_action :: "wfilter list \<Rightarrow> category \<Rightarrow> action" where
  "first_action [] c = Always"
| "first_action ((a, None) # fs) c = a"
| "first_action ((a, Some c') # fs) c = (if c = c' then a else first_action fs c)"

subsection \<open>The archive reader and the world\<close>

text \<open>The library calls that may emit warnings.\<close>

datatype lib_step =
    GetStorageFromRecord
  | StorageClsInit
  | TypedStorageInit
  | RebuildTensor
  | RebuildFromType
  | RebuildParameter
  | TensorGetattr

text \<open>
  The world. An archive reader (\<^verbatim>\<open>torch.PyTorchFileReader\<close>) belongs to one
  unpickler; \<open>archives w u\<close> are the named byte records of the archive that the reader
  of unpickler \<open>u\<close> has open. \<open>requests\<close> logs every storage read asked of a reader,
  in order: the unpickler, the record name and the byte length asked for. Then the
  warning filters in force, the warnings shown so far and, for each library call, the
  warnings that call emits (a fixed trait of the installed library).
\<close>

record world =
  archives :: "nat \<Rightarrow> (string \<times> byte list) list"
  requests :: "(nat \<times> string \<times> int) list"
  wfilters :: "wfilter list"
  shown :: "warning list"
  emits :: "lib_step \<Rightarrow> warning list"

definition warn :: "warning \<Rightarrow> world \<Rightarrow> world" where
  "warn wn w =
     (if first_action (wfilters w) (fst wn) = Ignore then w
      else w\<lparr>shown := shown w @ [wn]\<rparr>)"

definition lib_warn :: "lib_step \<Rightarrow> world \<Rightarrow> world" where
  "lib_warn step w = foldl (\<lambda>w' wn. warn wn w') w (emits w step)"

text \<open>\<^verbatim>\<open>warnings.simplefilter(action)\<close>.\<close>

definition simplefilter :: "action \<Rightarrow> world \<Rightarrow> world" where
  "simplefilter a w = w\<lparr>wfilters := (a, None) # wfilters w\<rparr>"

text \<open>
  \<^verbatim>\<open>with warnings.catch_warnings(): body\<close>: the filters are saved on entry and restored
  on exit, whether the body returns or raises.
\<close>

definition catch_warnings :: "(world \<Rightarrow> 'a \<times> world) \<Rightarrow> world \<Rightarrow> 'a \<times> world" where
  "catch_warnings body w =
     (case body w of (r, w') \<Rightarrow> (r, w'\<lparr>wfilters := wfilters w\<rparr>))"

text \<open>
  Modelled from the spec: the Archive Reader's
  \<^verbatim>\<open>get_storage_from_record(name, byteLength, storageKind)\<close> is an external collaborator
  (section 6): a range-bounded read sized by the caller, of a named record; a missing
  record and a short read are I/O errors (section 7). The request is logged whether it
  succeeds or not. The storage read lives in ordinary (CPU) memory.
\<close>

definition get_storage_from_record ::
  "nat \<Rightarrow> string \<Rightarrow> int \<Rightarrow> world \<Rightarrow> (error + typed_storage) \<times> world" where
  "get_storage_from_record u name nbytes w =
     (let w1 = lib_warn GetStorageFromRecord
                 (w\<lparr>requests := requests w @ [(u, name, nbytes)]\<rparr>)
      in case map_of (archives w u) name of
           None \<Rightarrow> (Inl (IOError name), w1)
         | Some bs \<Rightarrow>
             if nbytes < 0 \<or> int (length bs) < nbytes then (Inl (IOError name), w1)
             else (Inr \<lparr>st_dtype = UInt8,
                        st_untyped = \<lparr>us_device = ''cpu'', us_bytes = take (nat nbytes) bs\<rparr>,
                        st_archiveinfo = None\<rparr>, w1))"

subsection \<open>The tensor library's constructors\<close>

text \<open>
  \<^verbatim>\<open>TypedStorage(dtype=..., device=...)\<close>: a fresh storage on the given device. On the
  meta device it has no bytes.
\<close>

definition typed_storage_new :: "dtype \<Rightarrow> string \<Rightarrow> world \<Rightarrow> typed_storage \<times> world" where
  "typed_storage_new dt device w =
     (\<lparr>st_dtype = dt, st_untyped = \<lparr>us_device = device, us_bytes = []\<rparr>,
       st_archiveinfo = None\<rparr>, lib_warn TypedStorageInit w)"

text \<open>\<^verbatim>\<open>TypedStorage(wrap_storage=uts, dtype=dtype, _internal=True)\<close>.\<close>

definition typed_storage_wrap ::
  "untyped_storage \<Rightarrow> dtype \<Rightarrow> world \<Rightarrow> typed_storage \<times> world" where
  "typed_storage_wrap uts dt w =
     (\<lparr>st_dtype = dt, st_untyped = uts, st_archiveinfo = None\<rparr>, lib_warn TypedStorageInit w)"

text \<open>
  Only tensors of a floating point or complex element type can require gradients.
\<close>

fun floating :: "dtype \<Rightarrow> bool" where
  "floating Float64 = True"
| "floating Float32 = True"
| "floating Float16 = True"
| "floating BFloat16 = True"
| "floating Complex64 = True"
| "floating Complex128 = True"
| "floating Int64 = False"
| "floating Int32 = False"
| "floating Int16 = False"
| "floating Int8 = False"
| "floating UInt8 = False"
| "floating Bool = False"

text \<open>
  The bytes a view needs of its storage: none when a dimension is empty, otherwise the
  element size times one more than the largest element index the view reaches.
\<close>

definition needed_bytes :: "dtype \<Rightarrow> int \<Rightarrow> int list \<Rightarrow> int list \<Rightarrow> int" where
  "needed_bytes dt storage_offset tsize stride =
     (if list_ex (\<lambda>n. n = 0) tsize then 0
      else int (element_size dt) *
             (storage_offset + 1 + sum_list (map (\<lambda>(n, s). (n - 1) * s) (zip tsize stride))))"

text \<open>
  What \<^verbatim>\<open>torch._utils._rebuild_tensor_v2\<close> returns or raises. It makes an empty tensor
  of the storage's element type and device and points it at the storage with
  \<^verbatim>\<open>set_\<close>, which raises when size and stride differ in length, when the offset, a
  dimension or a stride is negative, and when the view needs more bytes than the storage
  has and the storage cannot be resized. A storage on the meta device has no memory and
  takes any view; a storage off the meta device is taken as not resizable, as those the
  archive reader returns are (the loader builds no other). Then the requires-grad flag
  is set, which raises for a true flag on an element type that is not floating point or
  complex; then the metadata (when truthy) and the backward hooks.
\<close>

definition rebuild_tensor_value ::
  "typed_storage \<Rightarrow> int \<Rightarrow> int list \<Rightarrow> int list \<Rightarrow> bool \<Rightarrow> hooks \<Rightarrow> pydict option
     \<Rightarrow> error + tensor" where
  "rebuild_tensor_value storage storage_offset tsize stride requires_grad backward_hooks
       metadata =
     (if length tsize \<noteq> length stride then
        Inl (RuntimeError ''mismatch in length of strides and shape'')
      else if storage_offset < 0 then
        Inl (RuntimeError ''invalid storage offset'')
      else if list_ex (\<lambda>n. n < 0) tsize then
        Inl (RuntimeError ''negative dimension'')
      else if list_ex (\<lambda>s. s < 0) stride then
        Inl (RuntimeError ''negative strides'')
      else if us_device (st_untyped storage) \<noteq> ''meta'' \<and>
              int (length (us_bytes (st_untyped storage))) <
                needed_bytes (st_dtype storage) storage_offset tsize stride then
        Inl (RuntimeError ''storage is not resizable'')
      else if requires_grad \<and> \<not> floating (st_dtype storage) then
        Inl (RuntimeError ''only floating point and complex tensors can require gradients'')
      else
        Inr \<lparr>t_type = TensorT, t_dtype = st_dtype storage, t_storage = st_untyped storage,
              t_offset = storage_offset, t_size = tsize, t_stride = stride,
              t_requires_grad = requires_grad, t_backward_hooks = backward_hooks,
              t_metadata = (case metadata of None \<Rightarrow> [] | Some m \<Rightarrow> m),
              t_is_param = False, t_attrs = []\<rparr>)"

text \<open>
  \<^verbatim>\<open>torch._utils._rebuild_tensor_v2\<close> as a call: a call that raises emits no warning.
\<close>

definition torch_rebuild_tensor_v2 ::
  "typed_storage \<Rightarrow> int \<Rightarrow> int list \<Rightarrow> int list \<Rightarrow> bool \<Rightarrow> hooks \<Rightarrow> pydict option
     \<Rightarrow> world \<Rightarrow> (error + tensor) \<times> world" where
  "torch_rebuild_tensor_v2 storage storage_offset tsize stride requires_grad backward_hooks
       metadata w =
     (case rebuild_tensor_value storage storage_offset tsize stride requires_grad
             backward_hooks metadata of
        Inl e \<Rightarrow> (Inl e, w)
      | Inr t \<Rightarrow> (Inr t, lib_warn RebuildTensor w))"

text \<open>\<^verbatim>\<open>setattr(obj, k, v)\<close> for every item of a state dictionary, in order.\<close>

fun set_obj_state :: "pydict \<Rightarrow> pydict \<Rightarrow> pydict" where
  "set_obj_state attrs [] = attrs"
| "set_obj_state attrs ((k, v) # kvs) =
     set_obj_state ((k, v) # filter (\<lambda>kv. fst kv \<noteq> k) attrs) kvs"

text \<open>
  \<^verbatim>\<open>Tensor.as_subclass(new_type)\<close>: a new tensor object of the new type over the same
  data. Being a new object, it has none of the attributes set on the old one, no
  backward hooks and no parameter flag; it is a parameter exactly when the new type is
  \<^verbatim>\<open>Parameter\<close>.
\<close>

definition as_subclass :: "tensor \<Rightarrow> tensor_type \<Rightarrow> tensor" where
  "as_subclass t new_type =
     t\<lparr>t_type := new_type, t_backward_hooks := [], t_is_param := (new_type = ParameterT),
       t_attrs := []\<rparr>"

text \<open>
  The tensor \<^verbatim>\<open>torch._tensor._rebuild_from_type_v2\<close> makes of the tensor its build
  function returned: \<^verbatim>\<open>as_subclass\<close> when the type differs (the object itself
  otherwise), then the state set on it. The new type is taken to have no
  \<^verbatim>\<open>__setstate__\<close> of its own.
\<close>

definition from_type_value :: "tensor \<Rightarrow> tensor_type \<Rightarrow> pydict \<Rightarrow> tensor" where
  "from_type_value t new_type state =
     (let ret = (if t_type t \<noteq> new_type then as_subclass t new_type else t)
      in ret\<lparr>t_attrs := set_obj_state (t_attrs ret) state\<rparr>)"

text \<open>
  What \<^verbatim>\<open>torch.nn.Parameter(data, requires_grad)\<close> followed by the assignment of the
  backward hooks gives for a tensor, as in \<^verbatim>\<open>torch._utils._rebuild_parameter\<close>. A plain
  tensor or a parameter becomes a new \<^verbatim>\<open>Parameter\<close> object; a tensor of a custom type
  is detached (a new object of the same type) and flagged as a parameter. Either way
  the attributes set on the old object are not on the new one. A true requires-grad flag
  on an element type that is not floating point or complex raises.
\<close>

definition parameter_value :: "tensor \<Rightarrow> bool \<Rightarrow> hooks \<Rightarrow> error + tensor" where
  "parameter_value data requires_grad backward_hooks =
     (if requires_grad \<and> \<not> floating (t_dtype data) then
        Inl (RuntimeError ''only floating point and complex tensors can require gradients'')
      else
        Inr (data\<lparr>t_type := (case t_type data of CustomT c \<Rightarrow> CustomT c | _ \<Rightarrow> ParameterT),
                  t_requires_grad := requires_grad,
                  t_backward_hooks := backward_hooks,
                  t_is_param := True,
                  t_attrs := []\<rparr>))"

text \<open>\<^verbatim>\<open>Parameter(None, requires_grad)\<close>: a parameter over \<^verbatim>\<open>torch.empty(0)\<close>.\<close>

definition empty_parameter :: "bool \<Rightarrow> hooks \<Rightarrow> tensor" where
  "empty_parameter requires_grad backward_hooks =
     \<lparr>t_type = ParameterT, t_dtype = Float32,
       t_storage = \<lparr>us_device = ''cpu'', us_bytes = []\<rparr>, t_offset = 0, t_size = [0],
       t_stride = [1], t_requires_grad = requires_grad, t_backward_hooks = backward_hooks,
       t_metadata = [], t_is_param = True, t_attrs = []\<rparr>"

section \<open>The lazy loader\<close>

subsection \<open>The placeholder tensor\<close>

text \<open>
  \<^verbatim>\<open>class _NotYetLoadedTensor\<close>. The four fields are those \<^verbatim>\<open>__init__\<close> sets;
  \<open>archiveinfo\<close> is the unpickler, whose \<^verbatim>\<open>file_reader\<close> reads \<open>archives w (archiveinfo p)\<close>.
  The two wrapping operations assign the instance attribute \<^verbatim>\<open>_load_tensor\<close>, which
  then shadows the method of the class: \<open>own_load_tensor\<close> is that attribute, \<open>None\<close>
  while it is not set. The assignment \<^verbatim>\<open>ret._load_tensor = ...; return ret\<close> updates
  the object and returns it; here it is a record update of the returned value.
\<close>

type_synonym rebuild_args = "int \<times> int list \<times> int list \<times> bool \<times> hooks \<times> pydict option"

record placeholder =
  metatensor :: tensor
  archiveinfo :: nat
  storageinfo :: pid
  rebuild_args :: rebuild_args
  own_load_tensor :: "(world \<Rightarrow> (error + tensor) \<times> world) option"

text \<open>
  A Python object as the loader meets it: a concrete tensor, a placeholder,
  \<^verbatim>\<open>None\<close>, or any other object (opaque, named by a string).
\<close>

datatype pyobj = Tensor tensor | NotYetLoaded placeholder | PyNone | Other string

text \<open>\<^verbatim>\<open>_NotYetLoadedTensor._load_tensor\<close>, the method.\<close>

definition load_tensor :: "placeholder \<Rightarrow> world \<Rightarrow> (error + tensor) \<times> world" where
  "load_tensor self w =
     (case storageinfo self of (name, storage_cls, fn, device, n) \<Rightarrow>
        let dtype = t_dtype (metatensor self) in
        case get_storage_from_record (archiveinfo self) (''data/'' @ fn)
               (n * int (element_size dtype)) w of
          (Inl e, w1) \<Rightarrow> (Inl e, w1)
        | (Inr storage, w1) \<Rightarrow>
            let uts = st_untyped storage in
            case catch_warnings
                   (\<lambda>w'. typed_storage_wrap uts dtype (simplefilter Ignore w')) w1 of
              (storage', w2) \<Rightarrow>
                (case rebuild_args self of
                   (storage_offset, tsize, stride, requires_grad, backward_hooks, metadata) \<Rightarrow>
                     torch_rebuild_tensor_v2 storage' storage_offset tsize stride
                       requires_grad backward_hooks metadata w2))"

text \<open>
  The attribute read \<^verbatim>\<open>x._load_tensor\<close>: the instance attribute when it is set, the
  method bound to \<open>x\<close> otherwise.
\<close>

definition lookup_load_tensor :: "placeholder \<Rightarrow> world \<Rightarrow> (error + tensor) \<times> world" where
  "lookup_load_tensor x =
     (case own_load_tensor x of Some f \<Rightarrow> f | None \<Rightarrow> load_tensor x)"

subsection \<open>Attribute access\<close>

text \<open>
  The value of an attribute read on a tensor. \<^verbatim>\<open>getattr(tensor, name)\<close> is the tensor
  library's; the model covers the attributes the allow-list names, the methods the
  loader and its callers ask for, and the attributes set through a state dictionary.
\<close>

datatype attr =
    DtypeV dtype
  | ShapeV "int list"
  | BoolV bool
  | IntV int
  | NoneV
  | StrV string
  | NamesV nat
  | BoundMethod string tensor

definition tensor_methods :: "string list" where
  "tensor_methods = [''size'', ''stride'', ''contiguous'', ''as_subclass'', ''storage_offset'',
     ''numel'', ''detach'', ''clone'']"

definition tensor_getattr :: "tensor \<Rightarrow> string \<Rightarrow> world \<Rightarrow> (error + attr) \<times> world" where
  "tensor_getattr t name w =
     (let w1 = lib_warn TensorGetattr w in
      if name = ''dtype'' then (Inr (DtypeV (t_dtype t)), w1)
      else if name = ''shape'' then (Inr (ShapeV (t_size t)), w1)
      else if name = ''ndim'' then (Inr (IntV (int (length (t_size t)))), w1)
      else if name = ''requires_grad'' then (Inr (BoolV (t_requires_grad t)), w1)
      else if name = ''grad'' \<or> name = ''grad_fn'' then (Inr NoneV, w1)
      else if name = ''layout'' then (Inr (StrV ''torch.strided''), w1)
      else if name = ''names'' then (Inr (NamesV (length (t_size t))), w1)
      else if name = ''output_nr'' then (Inr (IntV 0), w1)
      else if name = ''retains_grad'' \<or> name = ''volatile'' then (Inr (BoolV False), w1)
      else if name \<in> set tensor_methods then (Inr (BoundMethod name t), w1)
      else (case map_of (t_attrs t) name of
              Some v \<Rightarrow> (Inr (StrV v), w1)
            | None \<Rightarrow> (Inl (AttributeError name), w1)))"

text \<open>The names \<^verbatim>\<open>__getattr__\<close> serves from the meta tensor.\<close>

definition allow_list :: "string list" where
  "allow_list = [''dtype'', ''grad'', ''grad_fn'', ''layout'', ''names'', ''ndim'',
     ''output_nr'', ''requires_grad'', ''retains_grad'', ''size'', ''shape'', ''volatile'']"

text \<open>\<^verbatim>\<open>str(type(self))\<close> for a placeholder.\<close>

definition type_repr :: string where
  "type_repr = ''<class '' @ [CHR 0x27] @ ''lightning.fabric.utilities.load._NotYetLoadedTensor''
     @ [CHR 0x27] @ ''>''"

text \<open>
  \<^verbatim>\<open>_NotYetLoadedTensor.__getattr__\<close>: Python calls it for the names the ordinary
  lookup (the instance's fields, the class's methods) does not find.
\<close>

definition getattr :: "placeholder \<Rightarrow> string \<Rightarrow> world \<Rightarrow> (error + attr) \<times> world" where
  "getattr self name w =
     (if name \<in> set allow_list then tensor_getattr (metatensor self) name w
      else if name \<in> set [''contiguous''] then
        (case lookup_load_tensor self w of
           (Inl e, w1) \<Rightarrow> (Inl e, w1)
         | (Inr t, w1) \<Rightarrow> tensor_getattr t name w1)
      else (Inl (AttributeError (type_repr @ '' does not have '' @ name)), w))"

subsection \<open>The three reconstruction operations\<close>

text \<open>
  \<^verbatim>\<open>torch._tensor._rebuild_from_type_v2(func, new_type, args, state)\<close>: calls
  \<^verbatim>\<open>func(*args)\<close>, turns the result into \<open>new_type\<close> with \<^verbatim>\<open>as_subclass\<close> and sets
  the state on it. On a placeholder \<^verbatim>\<open>ret.as_subclass\<close> goes through
  \<^verbatim>\<open>__getattr__\<close>; \<^verbatim>\<open>None\<close> and other objects have no such attribute.
\<close>

definition torch_rebuild_from_type_v2 ::
  "('a \<Rightarrow> world \<Rightarrow> (error + pyobj) \<times> world) \<Rightarrow> tensor_type \<Rightarrow> 'a \<Rightarrow> pydict
     \<Rightarrow> world \<Rightarrow> (error + tensor) \<times> world" where
  "torch_rebuild_from_type_v2 func new_type args state w =
     (case func args w of
        (Inl e, w1) \<Rightarrow> (Inl e, w1)
      | (Inr ret, w1) \<Rightarrow>
          (case ret of
             Tensor t \<Rightarrow> (Inr (from_type_value t new_type state), lib_warn RebuildFromType w1)
           | NotYetLoaded p \<Rightarrow>
               (case getattr p ''as_subclass'' w1 of
                  (Inl e, w2) \<Rightarrow> (Inl e, w2)
                | (Inr a, w2) \<Rightarrow> (Inl (TypeError ''as_subclass''), w2))
           | PyNone \<Rightarrow> (Inl (AttributeError ''as_subclass''), w1)
           | Other obj \<Rightarrow> (Inl (AttributeError ''as_subclass''), w1)))"

text \<open>
  \<^verbatim>\<open>torch._utils._rebuild_parameter(data, requires_grad, backward_hooks)\<close> as a call.
  For \<^verbatim>\<open>None\<close> it gives an empty parameter; on any other object that is not a
  tensor, \<^verbatim>\<open>data.detach()\<close> raises (on a placeholder, through \<^verbatim>\<open>__getattr__\<close>). A call
  that raises emits no warning.
\<close>

definition torch_rebuild_parameter ::
  "pyobj \<Rightarrow> bool \<Rightarrow> hooks \<Rightarrow> world \<Rightarrow> (error + tensor) \<times> world" where
  "torch_rebuild_parameter data requires_grad backward_hooks w =
     (case data of
        Tensor t \<Rightarrow>
          (case parameter_value t requires_grad backward_hooks of
             Inl e \<Rightarrow> (Inl e, w)
           | Inr t' \<Rightarrow> (Inr t', lib_warn RebuildParameter w))
      | NotYetLoaded p \<Rightarrow>
          (case getattr p ''detach'' w of
             (Inl e, w1) \<Rightarrow> (Inl e, w1)
           | (Inr a, w1) \<Rightarrow> (Inl (TypeError ''detach''), w1))
      | PyNone \<Rightarrow>
          (Inr (empty_parameter requires_grad backward_hooks), lib_warn RebuildParameter w)
      | Other obj \<Rightarrow> (Inl (AttributeError ''detach''), w))"

text \<open>
  The closure \<^verbatim>\<open>_load_tensor\<close> that \<^verbatim>\<open>rebuild_from_type_v2\<close> defines; it captures
  \<open>old_lt\<close>, \<open>new_type\<close> and \<open>state\<close>.
\<close>

definition from_type_load_tensor ::
  "(world \<Rightarrow> (error + tensor) \<times> world) \<Rightarrow> tensor_type \<Rightarrow> pydict
     \<Rightarrow> world \<Rightarrow> (error + tensor) \<times> world" where
  "from_type_load_tensor old_lt new_type state w =
     (case old_lt w of
        (Inl e, w1) \<Rightarrow> (Inl e, w1)
      | (Inr t, w1) \<Rightarrow>
          torch_rebuild_from_type_v2 (\<lambda>u w'. (Inr (Tensor t), w')) new_type () state w1)"

text \<open>
  \<^verbatim>\<open>_NotYetLoadedTensor.rebuild_from_type_v2\<close>. The keyword \<^verbatim>\<open>archiveinfo\<close> is never
  read and is left out. On the concrete path the source calls \<^verbatim>\<open>func(*args)\<close> a second
  time, inside the library's rebuild; so does the model.
\<close>

definition rebuild_from_type_v2 ::
  "('a \<Rightarrow> world \<Rightarrow> (error + pyobj) \<times> world) \<Rightarrow> tensor_type \<Rightarrow> 'a \<Rightarrow> pydict
     \<Rightarrow> world \<Rightarrow> (error + pyobj) \<times> world" where
  "rebuild_from_type_v2 func new_type args state w =
     (case func args w of
        (Inl e, w1) \<Rightarrow> (Inl e, w1)
      | (Inr ret, w1) \<Rightarrow>
          (case ret of
             NotYetLoaded p \<Rightarrow>
               (let old_lt = lookup_load_tensor p in
                (Inr (NotYetLoaded
                   (p\<lparr>own_load_tensor := Some (from_type_load_tensor old_lt new_type state)\<rparr>)),
                 w1))
           | _ \<Rightarrow>
               (case torch_rebuild_from_type_v2 func new_type args state w1 of
                  (Inl e, w2) \<Rightarrow> (Inl e, w2)
                | (Inr t, w2) \<Rightarrow> (Inr (Tensor t), w2))))"

text \<open>The closure \<^verbatim>\<open>_load_tensor\<close> that \<^verbatim>\<open>rebuild_parameter\<close> defines.\<close>

definition parameter_load_tensor ::
  "(world \<Rightarrow> (error + tensor) \<times> world) \<Rightarrow> bool \<Rightarrow> hooks
     \<Rightarrow> world \<Rightarrow> (error + tensor) \<times> world" where
  "parameter_load_tensor old_lt requires_grad backward_hooks w =
     (case old_lt w of
        (Inl e, w1) \<Rightarrow> (Inl e, w1)
      | (Inr t, w1) \<Rightarrow> torch_rebuild_parameter (Tensor t) requires_grad backward_hooks w1)"

text \<open>
  \<^verbatim>\<open>_NotYetLoadedTensor.rebuild_parameter\<close>. Whatever is not a placeholder goes to the
  library's \<^verbatim>\<open>_rebuild_parameter\<close>.
\<close>

definition rebuild_parameter ::
  "pyobj \<Rightarrow> bool \<Rightarrow> hooks \<Rightarrow> world \<Rightarrow> (error + pyobj) \<times> world" where
  "rebuild_parameter data requires_grad backward_hooks w =
     (case data of
        NotYetLoaded p \<Rightarrow>
          (let old_lt = lookup_load_tensor p in
           (Inr (NotYetLoaded
              (p\<lparr>own_load_tensor :=
                   Some (parameter_load_tensor old_lt requires_grad backward_hooks)\<rparr>)),
            w))
      | _ \<Rightarrow>
          (case torch_rebuild_parameter data requires_grad backward_hooks w of
             (Inl e, w1) \<Rightarrow> (Inl e, w1)
           | (Inr t', w1) \<Rightarrow> (Inr (Tensor t'), w1)))"

text \<open>
  \<^verbatim>\<open>_NotYetLoadedTensor.rebuild_tensor_v2\<close>. An exception of the library's rebuild of
  the meta tensor ends it; the read \<^verbatim>\<open>storage.archiveinfo\<close> raises when the storage
  does not come from \<^verbatim>\<open>persistent_load\<close>.
\<close>

definition rebuild_tensor_v2 ::
  "typed_storage \<Rightarrow> int \<Rightarrow> int list \<Rightarrow> int list \<Rightarrow> bool \<Rightarrow> hooks \<Rightarrow> pydict option
     \<Rightarrow> nat \<Rightarrow> world \<Rightarrow> (error + placeholder) \<times> world" where
  "rebuild_tensor_v2 storage storage_offset tsize stride requires_grad backward_hooks
       metadata archiveinfo' w =
     (let rebuild_args' =
            (storage_offset, tsize, stride, requires_grad, backward_hooks, metadata) in
      case torch_rebuild_tensor_v2 storage storage_offset tsize stride requires_grad
             backward_hooks metadata w of
        (Inl e, w1) \<Rightarrow> (Inl e, w1)
      | (Inr metatensor', w1) \<Rightarrow>
          (case st_archiveinfo storage of
             None \<Rightarrow> (Inl (AttributeError ''archiveinfo''), w1)
           | Some storageinfo' \<Rightarrow>
               (Inr \<lparr>metatensor = metatensor', archiveinfo = archiveinfo',
                     storageinfo = storageinfo', rebuild_args = rebuild_args',
                     own_load_tensor = None\<rparr>, w1)))"

subsection \<open>Operator dispatch\<close>

text \<open>
  The list comprehension of \<^verbatim>\<open>__torch_function__\<close>. Its element expression is
  \<^verbatim>\<open>arg._load_tensor() if isinstance(arg, _NotYetLoadedTensor) else arg\<close>, here
  \<open>load_arg\<close>; the positional arguments are taken left to right, and the first
  exception ends the comprehension.
\<close>

definition load_arg :: "pyobj \<Rightarrow> world \<Rightarrow> (error + pyobj) \<times> world" where
  "load_arg arg w =
     (case arg of
        NotYetLoaded p \<Rightarrow>
          (case lookup_load_tensor p w of
             (Inl e, w1) \<Rightarrow> (Inl e, w1)
           | (Inr t, w1) \<Rightarrow> (Inr (Tensor t), w1))
      | _ \<Rightarrow> (Inr arg, w))"

fun loaded_args :: "pyobj list \<Rightarrow> world \<Rightarrow> (error + pyobj list) \<times> world" where
  "loaded_args [] w = (Inr [], w)"
| "loaded_args (arg # args) w =
     (case load_arg arg w of
        (Inl e, w1) \<Rightarrow> (Inl e, w1)
      | (Inr a, w1) \<Rightarrow>
          (case loaded_args args w1 of
             (Inl e, w2) \<Rightarrow> (Inl e, w2)
           | (Inr as, w2) \<Rightarrow> (Inr (a # as), w2)))"

text \<open>
  \<^verbatim>\<open>_NotYetLoadedTensor.__torch_function__\<close>; \<open>kwargs\<close> is \<open>None\<close> or a dictionary
  from keyword to argument.
\<close>

definition torch_function ::
  "(pyobj list \<Rightarrow> (string \<times> pyobj) list \<Rightarrow> world \<Rightarrow> (error + 'r) \<times> world) \<Rightarrow> 'ty
     \<Rightarrow> pyobj list \<Rightarrow> (string \<times> pyobj) list option \<Rightarrow> world \<Rightarrow> (error + 'r) \<times> world" where
  "torch_function func types args kwargs w =
     (let kwargs' = (case kwargs of None \<Rightarrow> [] | Some kw \<Rightarrow> kw) in
      case loaded_args args w of
        (Inl e, w1) \<Rightarrow> (Inl e, w1)
      | (Inr la, w1) \<Rightarrow> func la kwargs' w1)"

subsection \<open>The unpickler\<close>

text \<open>
  \<^verbatim>\<open>_LazyLoadingUnpickler.persistent_load\<close>. Both the instantiation \<^verbatim>\<open>cls()\<close> and the
  construction of the storage happen inside the \<^verbatim>\<open>catch_warnings\<close> block.
\<close>

definition persistent_load :: "pid \<Rightarrow> world \<Rightarrow> typed_storage \<times> world" where
  "persistent_load pid w =
     (case pid of (name, cls, fn, device, n) \<Rightarrow>
        (case catch_warnings
                (\<lambda>w'. typed_storage_new (cls_dtype cls) ''meta''
                         (lib_warn StorageClsInit (simplefilter Ignore w'))) w of
           (storage, w1) \<Rightarrow> (storage\<lparr>st_archiveinfo := Some pid\<rparr>, w1)))"

subsection \<open>The materializer\<close>

text \<open>
  A nested structure: a leaf object, a mapping (its items in order) or a sequence.
\<close>

datatype collection =
    Leaf pyobj
  | Mapping "(string \<times> collection) list"
  | Sequence "collection list"

text \<open>
  Modelled from the spec: the structure-traversal utility \<^verbatim>\<open>apply_to_collection\<close> is an
  external collaborator (section 6): it finds all leaves of the given type in a nested
  structure of mappings and sequences and replaces each by the function's result,
  rebuilding the containers around them; any other object is returned as it is. Here
  the type is \<^verbatim>\<open>_NotYetLoadedTensor\<close>. The items are visited in order, and an exception
  of the function ends the traversal.
\<close>

fun apply_to_collection ::
      "collection \<Rightarrow> (placeholder \<Rightarrow> world \<Rightarrow> (error + pyobj) \<times> world)
         \<Rightarrow> world \<Rightarrow> (error + collection) \<times> world"
  and apply_to_items ::
      "(string \<times> collection) list \<Rightarrow> (placeholder \<Rightarrow> world \<Rightarrow> (error + pyobj) \<times> world)
         \<Rightarrow> world \<Rightarrow> (error + (string \<times> collection) list) \<times> world"
  and apply_to_elements ::
      "collection list \<Rightarrow> (placeholder \<Rightarrow> world \<Rightarrow> (error + pyobj) \<times> world)
         \<Rightarrow> world \<Rightarrow> (error + collection list) \<times> world"
where
  "apply_to_collection (Leaf obj) function w =
     (case obj of
        NotYetLoaded p \<Rightarrow>
          (case function p w of
             (Inl e, w1) \<Rightarrow> (Inl e, w1)
           | (Inr r, w1) \<Rightarrow> (Inr (Leaf r), w1))
      | _ \<Rightarrow> (Inr (Leaf obj), w))"
| "apply_to_collection (Mapping kvs) function w =
     (case apply_to_items kvs function w of
        (Inl e, w1) \<Rightarrow> (Inl e, w1)
      | (Inr out, w1) \<Rightarrow> (Inr (Mapping out), w1))"
| "apply_to_collection (Sequence cs) function w =
     (case apply_to_elements cs function w of
        (Inl e, w1) \<Rightarrow> (Inl e, w1)
      | (Inr out, w1) \<Rightarrow> (Inr (Sequence out), w1))"
| "apply_to_items [] function w = (Inr [], w)"
| "apply_to_items (kv # kvs) function w =
     (case apply_to_collection (snd kv) function w of
        (Inl e, w1) \<Rightarrow> (Inl e, w1)
      | (Inr v, w1) \<Rightarrow>
          (case apply_to_items kvs function w1 of
             (Inl e, w2) \<Rightarrow> (Inl e, w2)
           | (Inr out, w2) \<Rightarrow> (Inr ((fst kv, v) # out), w2)))"
| "apply_to_elements [] function w = (Inr [], w)"
| "apply_to_elements (c # cs) function w =
     (case apply_to_collection c function w of
        (Inl e, w1) \<Rightarrow> (Inl e, w1)
      | (Inr v, w1) \<Rightarrow>
          (case apply_to_elements cs function w1 of
             (Inl e, w2) \<Rightarrow> (Inl e, w2)
           | (Inr out, w2) \<Rightarrow> (Inr (v # out), w2)))"

text \<open>
  The local function \<^verbatim>\<open>_load_tensor(t)\<close> of \<^verbatim>\<open>_materialize_tensors\<close>: it returns
  \<^verbatim>\<open>t._load_tensor()\<close>, a tensor.
\<close>

definition materialize_load_tensor :: "placeholder \<Rightarrow> world \<Rightarrow> (error + pyobj) \<times> world" where
  "materialize_load_tensor t w =
     (case lookup_load_tensor t w of
        (Inl e, w1) \<Rightarrow> (Inl e, w1)
      | (Inr r, w1) \<Rightarrow> (Inr (Tensor r), w1))"

text \<open>\<^verbatim>\<open>_materialize_tensors\<close>.\<close>

definition materialize_tensors :: "collection \<Rightarrow> world \<Rightarrow> (error + collection) \<times> world" where
  "materialize_tensors collection w =
     apply_to_collection collection materialize_load_tensor w"

section \<open>Notions the properties are stated with\<close>

text \<open>The warnings of a list that the filters \<open>fs\<close> let through.\<close>

definition visible :: "wfilter list \<Rightarrow> warning list \<Rightarrow> warning list" where
  "visible fs ws = filter (\<lambda>wn. first_action fs (fst wn) \<noteq> Ignore) ws"

text \<open>
  The one read a placeholder stands for: its unpickler's reader, the record
  \<^verbatim>\<open>data/<fn>\<close>, and element count times element size bytes.
\<close>

definition storage_request :: "placeholder \<Rightarrow> nat \<times> string \<times> int" where
  "storage_request p =
     (case storageinfo p of (name, storage_cls, fn, device, n) \<Rightarrow>
        (archiveinfo p, ''data/'' @ fn, n * int (element_size (t_dtype (metatensor p)))))"

text \<open>
  The placeholders the loader makes. The constructor of \<^verbatim>\<open>_NotYetLoadedTensor\<close> is
  called in \<^verbatim>\<open>rebuild_tensor_v2\<close> only; the two wrapping operations replace the
  \<^verbatim>\<open>_load_tensor\<close> attribute of a placeholder they are given.
\<close>

inductive produced :: "placeholder \<Rightarrow> bool" where
  plain:
    "fst (rebuild_tensor_v2 storage storage_offset tsize stride requires_grad backward_hooks
            metadata u w) = Inr p \<Longrightarrow> produced p"
| from_type:
    "produced p \<Longrightarrow>
     produced (p\<lparr>own_load_tensor :=
                   Some (from_type_load_tensor (lookup_load_tensor p) new_type state)\<rparr>)"
| parameter:
    "produced p \<Longrightarrow>
     produced (p\<lparr>own_load_tensor :=
                   Some (parameter_load_tensor (lookup_load_tensor p) requires_grad
                           backward_hooks)\<rparr>)"

definition produced_obj :: "pyobj \<Rightarrow> bool" where
  "produced_obj a = (case a of NotYetLoaded p \<Rightarrow> produced p | _ \<Rightarrow> True)"

text \<open>
  An object with its placeholder materialized in the world \<open>w\<close>: a placeholder becomes
  the tensor its \<^verbatim>\<open>_load_tensor()\<close> returns there, any other object is itself.
\<close>

definition materialized :: "world \<Rightarrow> pyobj \<Rightarrow> error + pyobj" where
  "materialized w a =
     (case a of
        NotYetLoaded p \<Rightarrow>
          (case fst (lookup_load_tensor p w) of Inl e \<Rightarrow> Inl e | Inr t \<Rightarrow> Inr (Tensor t))
      | _ \<Rightarrow> Inr a)"

text \<open>The reads the positional argument \<open>a\<close> stands for.\<close>

definition arg_requests :: "pyobj \<Rightarrow> (nat \<times> string \<times> int) list" where
  "arg_requests a = (case a of NotYetLoaded p \<Rightarrow> [storage_request p] | _ \<Rightarrow> [])"

text \<open>The leaves of a nested structure, in traversal order.\<close>

fun leaves :: "collection \<Rightarrow> pyobj list"
  and leaves_items :: "(string \<times> collection) list \<Rightarrow> pyobj list"
  and leaves_elements :: "collection list \<Rightarrow> pyobj list"
where
  "leaves (Leaf a) = [a]"
| "leaves (Mapping kvs) = leaves_items kvs"
| "leaves (Sequence cs) = leaves_elements cs"
| "leaves_items [] = []"
| "leaves_items (kv # kvs) = leaves (snd kv) @ leaves_items kvs"
| "leaves_elements [] = []"
| "leaves_elements (c # cs) = leaves c @ leaves_elements cs"

text \<open>
  \<open>replaced w c c'\<close>: the structure \<open>c'\<close> has the containers, the keys and the order of
  \<open>c\<close>, and each leaf of \<open>c'\<close> is the leaf of \<open>c\<close> at the same place, materialized.
\<close>

fun replaced :: "world \<Rightarrow> collection \<Rightarrow> collection \<Rightarrow> bool"
  and replaced_items ::
      "world \<Rightarrow> (string \<times> collection) list \<Rightarrow> (string \<times> collection) list \<Rightarrow> bool"
  and replaced_elements :: "world \<Rightarrow> collection list \<Rightarrow> collection list \<Rightarrow> bool"
where
  "replaced w (Leaf a) (Leaf b) = (materialized w a = Inr b)"
| "replaced w (Mapping kvs) (Mapping kvs') = replaced_items w kvs kvs'"
| "replaced w (Sequence cs) (Sequence cs') = replaced_elements w cs cs'"
| "replaced w (Leaf a) (Mapping kvs') = False"
| "replaced w (Leaf a) (Sequence cs') = False"
| "replaced w (Mapping kvs) (Leaf b) = False"
| "replaced w (Mapping kvs) (Sequence cs') = False"
| "replaced w (Sequence cs) (Leaf b) = False"
| "replaced w (Sequence cs) (Mapping kvs') = False"
| "replaced_items w [] [] = True"
| "replaced_items w (kv # kvs) (kv' # kvs') =
     (fst kv = fst kv' \<and> replaced w (snd kv) (snd kv') \<and> replaced_items w kvs kvs')"
| "replaced_items w [] (kv' # kvs') = False"
| "replaced_items w (kv # kvs) [] = False"
| "replaced_elements w [] [] = True"
| "replaced_elements w (c # cs) (c' # cs') = (replaced w c c' \<and> replaced_elements w cs cs')"
| "replaced_elements w [] (c' # cs') = False"
| "replaced_elements w (c # cs) [] = False"

text \<open>
  What a traversal that started in a world with the archives of \<open>w0\<close>, went over the
  objects \<open>lvs\<close> from the world \<open>w\<close> on and ended with \<open>res\<close> has done: the archives
  are as before; when it returned, the result is related by \<open>R\<close> and exactly the reads of
  \<open>lvs\<close> were asked for, in order; when it raised, the error is that of materializing one
  of the objects.
\<close>

definition traversal ::
  "world \<Rightarrow> world \<Rightarrow> pyobj list \<Rightarrow> ('a \<Rightarrow> bool) \<Rightarrow> (error + 'a) \<times> world \<Rightarrow> bool" where
  "traversal w0 w lvs R res =
     (archives (snd res) = archives w0 \<and>
      (case fst res of
         Inr x \<Rightarrow> R x \<and> requests (snd res) = requests w @ concat (map arg_requests lvs)
       | Inl e \<Rightarrow> (\<exists>a \<in> set lvs. materialized w0 a = Inl e)))"

subsection \<open>Eager loading, for comparison\<close>

type_synonym tensor_args =
  "typed_storage \<times> int \<times> int list \<times> int list \<times> bool \<times> hooks \<times> pydict option"

text \<open>
  What \<^verbatim>\<open>find_class\<close> returns for \<^verbatim>\<open>torch._utils._rebuild_tensor_v2\<close>:
  \<^verbatim>\<open>partial(_NotYetLoadedTensor.rebuild_tensor_v2, archiveinfo=self)\<close>, applied to the
  pickled argument tuple.
\<close>

definition lazy_rebuild_tensor_v2 ::
  "nat \<Rightarrow> tensor_args \<Rightarrow> world \<Rightarrow> (error + pyobj) \<times> world" where
  "lazy_rebuild_tensor_v2 u args w =
     (case args of
        (storage, storage_offset, tsize, stride, requires_grad, backward_hooks, metadata) \<Rightarrow>
          (case rebuild_tensor_v2 storage storage_offset tsize stride requires_grad
                  backward_hooks metadata u w of
             (Inl e, w1) \<Rightarrow> (Inl e, w1)
           | (Inr p, w1) \<Rightarrow> (Inr (NotYetLoaded p), w1)))"

text \<open>
  The unpickler replaying a parameter that wraps a type-wrapped tensor: the persistent
  reference, then the type-changing reconstruction around the plain one, then the
  parameter wrapper.
\<close>

definition lazy_typed_parameter ::
  "nat \<Rightarrow> pid \<Rightarrow> int \<Rightarrow> int list \<Rightarrow> int list \<Rightarrow> bool \<Rightarrow> hooks \<Rightarrow> pydict option
     \<Rightarrow> tensor_type \<Rightarrow> pydict \<Rightarrow> bool \<Rightarrow> hooks \<Rightarrow> world \<Rightarrow> (error + pyobj) \<times> world" where
  "lazy_typed_parameter u pid storage_offset tsize stride rg0 hooks0 metadata new_type state
       requires_grad backward_hooks w =
     (case persistent_load pid w of
        (storage, w1) \<Rightarrow>
          (case rebuild_from_type_v2 (lazy_rebuild_tensor_v2 u) new_type
                  (storage, storage_offset, tsize, stride, rg0, hooks0, metadata) state w1 of
             (Inl e, w2) \<Rightarrow> (Inl e, w2)
           | (Inr typed, w2) \<Rightarrow> rebuild_parameter typed requires_grad backward_hooks w2))"

text \<open>
  Modelled from the spec: eager (non-lazy) loading of the same archive is the tensor
  library's own loader, not part of this repository. It resolves a persistent reference
  by reading the whole storage at once (the same record, element count times element
  size bytes), moves the storage to the device the reference names (on a machine that
  has the device) and then runs the library's three reconstruction functions where the
  lazy loader runs its own.
\<close>

definition restore_location :: "untyped_storage \<Rightarrow> string \<Rightarrow> untyped_storage" where
  "restore_location storage location = storage\<lparr>us_device := location\<rparr>"

definition eager_persistent_load ::
  "nat \<Rightarrow> pid \<Rightarrow> world \<Rightarrow> (error + typed_storage) \<times> world" where
  "eager_persistent_load u pid w =
     (case pid of (name, cls, fn, device, n) \<Rightarrow>
        let dtype = cls_dtype cls in
        case get_storage_from_record u (''data/'' @ fn) (n * int (element_size dtype)) w of
          (Inl e, w1) \<Rightarrow> (Inl e, w1)
        | (Inr storage, w1) \<Rightarrow>
            (case typed_storage_wrap (restore_location (st_untyped storage) device) dtype
                    w1 of
               (storage', w2) \<Rightarrow> (Inr storage', w2)))"

definition eager_rebuild_tensor_v2 :: "tensor_args \<Rightarrow> world \<Rightarrow> (error + pyobj) \<times> world" where
  "eager_rebuild_tensor_v2 args w =
     (case args of
        (storage, storage_offset, tsize, stride, requires_grad, backward_hooks, metadata) \<Rightarrow>
          (case torch_rebuild_tensor_v2 storage storage_offset tsize stride requires_grad
                  backward_hooks metadata w of
             (Inl e, w1) \<Rightarrow> (Inl e, w1)
           | (Inr t, w1) \<Rightarrow> (Inr (Tensor t), w1)))"

definition eager_typed_parameter ::
  "nat \<Rightarrow> pid \<Rightarrow> int \<Rightarrow> int list \<Rightarrow> int list \<Rightarrow> bool \<Rightarrow> hooks \<Rightarrow> pydict option
     \<Rightarrow> tensor_type \<Rightarrow> pydict \<Rightarrow> bool \<Rightarrow> hooks \<Rightarrow> world \<Rightarrow> (error + tensor) \<times> world" where
  "eager_typed_parameter u pid storage_offset tsize stride rg0 hooks0 metadata new_type state
       requires_grad backward_hooks w =
     (case eager_persistent_load u pid w of
        (Inl e, w1) \<Rightarrow> (Inl e, w1)
      | (Inr storage, w1) \<Rightarrow>
          (case torch_rebuild_from_type_v2 eager_rebuild_tensor_v2 new_type
                  (storage, storage_offset, tsize, stride, rg0, hooks0, metadata) state w1 of
             (Inl e, w2) \<Rightarrow> (Inl e, w2)
           | (Inr typed, w2) \<Rightarrow>
               torch_rebuild_parameter (Tensor typed) requires_grad backward_hooks w2))"

text \<open>
  One materialization of what a load returned: a placeholder is materialized in the
  world the load left, a tensor is itself, an error stays the error.
\<close>

definition materialize_once :: "(error + pyobj) \<times> world \<Rightarrow> error + tensor" where
  "materialize_once res =
     (case res of
        (Inl e, w) \<Rightarrow> Inl e
      | (Inr a, w) \<Rightarrow>
          (case a of
             NotYetLoaded p \<Rightarrow> fst (lookup_load_tensor p w)
           | Tensor t \<Rightarrow> Inr t
           | PyNone \<Rightarrow> Inl (TypeError ''None'')
           | Other obj \<Rightarrow> Inl (TypeError obj)))"

subsection \<open>A small archive\<close>

text \<open>
  One record of sixteen bytes, the four single-precision numbers of a 2 by 2 tensor; a
  library whose storage constructors and record reads warn.
\<close>

definition ex_pid :: pid where
  "ex_pid = (''weight'', FloatStorage, ''0'', ''cpu'', 4)"

definition ex_bytes :: "byte list" where
  "ex_bytes = [0, 0, 128, 63, 0, 0, 0, 64, 0, 0, 64, 64, 0, 0, 128, 64]"

definition ex_emits :: "lib_step \<Rightarrow> warning list" where
  "ex_emits step =
     (case step of
        TypedStorageInit \<Rightarrow> [(UserWarning, ''TypedStorage is deprecated'')]
      | StorageClsInit \<Rightarrow> [(UserWarning, ''TypedStorage is deprecated'')]
      | GetStorageFromRecord \<Rightarrow> [(RuntimeWarning, ''slow read'')]
      | _ \<Rightarrow> [])"

definition ex_world :: world where
  "ex_world = \<lparr>archives = (\<lambda>u. [(''data/0'', ex_bytes)]), requests = [], wfilters = [],
                shown = [], emits = ex_emits\<rparr>"

definition ex_storage :: typed_storage where
  "ex_storage = \<lparr>st_dtype = Float32, st_untyped = \<lparr>us_device = ''meta'', us_bytes = []\<rparr>,
                  st_archiveinfo = Some ex_pid\<rparr>"

definition ex_metatensor :: tensor where
  "ex_metatensor = \<lparr>t_type = TensorT, t_dtype = Float32,
     t_storage = \<lparr>us_device = ''meta'', us_bytes = []\<rparr>, t_offset = 0, t_size = [2, 2],
     t_stride = [2, 1], t_requires_grad = False, t_backward_hooks = [], t_metadata = [],
     t_is_param = False, t_attrs = []\<rparr>"

definition ex_placeholder :: placeholder where
  "ex_placeholder = \<lparr>metatensor = ex_metatensor, archiveinfo = 0, storageinfo = ex_pid,
     rebuild_args = (0, [2, 2], [2, 1], False, [], None), own_load_tensor = None\<rparr>"

text \<open>
  The placeholder the loader makes for the same reference and a 4 by 4 view, which the
  four elements of the record cannot hold.
\<close>

definition ex_wide_placeholder :: placeholder where
  "ex_wide_placeholder = \<lparr>metatensor = ex_metatensor\<lparr>t_size := [4, 4], t_stride := [4, 1]\<rparr>,
     archiveinfo = 0, storageinfo = ex_pid,
     rebuild_args = (0, [4, 4], [4, 1], False, [], None), own_load_tensor = None\<rparr>"

definition ex_tensor :: tensor where
  "ex_tensor = \<lparr>t_type = TensorT, t_dtype = Float32,
     t_storage = \<lparr>us_device = ''cpu'', us_bytes = ex_bytes\<rparr>, t_offset = 0, t_size = [2, 2],
     t_stride = [2, 1], t_requires_grad = False, t_backward_hooks = [], t_metadata = [],
     t_is_param = False, t_attrs = []\<rparr>"

text \<open>
  The parameter that the small archive's record gives when it is wrapped as
  \<^verbatim>\<open>Quantized\<close> with state \<^verbatim>\<open>scale\<close> and then as a parameter, with its storage on
  the given device.
\<close>

definition ex_parameter :: "string \<Rightarrow> tensor" where
  "ex_parameter dev = \<lparr>t_type = CustomT ''Quantized'', t_dtype = Float32,
     t_storage = \<lparr>us_device = dev, us_bytes = ex_bytes\<rparr>, t_offset = 0, t_size = [2, 2],
     t_stride = [2, 1], t_requires_grad = True, t_backward_hooks = [], t_metadata = [],
     t_is_param = True, t_attrs = []\<rparr>"

section \<open>Auxiliary facts\<close>

subsection \<open>Warnings\<close>

lemma foldl_warn:
  "foldl (\<lambda>w' wn. warn wn w') w ws = w\<lparr>shown := shown w @ visible (wfilters w) ws\<rparr>"
  by (induction ws arbitrary: w) (simp_all add: warn_def visible_def)

lemma lib_warn_eq:
  "lib_warn step w = w\<lparr>shown := shown w @ visible (wfilters w) (emits w step)\<rparr>"
  by (simp add: lib_warn_def foldl_warn)

lemma visible_ignore: "visible ((Ignore, None) # fs) ws = []"
  by (simp add: visible_def)


subsection \<open>The operations in closed form\<close>

lemma persistent_load_eq:
  "persistent_load (name, cls, fn, device, n) w =
     (\<lparr>st_dtype = cls_dtype cls, st_untyped = \<lparr>us_device = ''meta'', us_bytes = []\<rparr>,
       st_archiveinfo = Some (name, cls, fn, device, n)\<rparr>, w)"
  by (simp add: persistent_load_def catch_warnings_def typed_storage_new_def
      simplefilter_def lib_warn_eq visible_ignore)

lemma rebuild_tensor_value_Inr:
  assumes "rebuild_tensor_value storage storage_offset tsize stride requires_grad
             backward_hooks metadata = Inr t"
  shows "t = \<lparr>t_type = TensorT, t_dtype = st_dtype storage, t_storage = st_untyped storage,
              t_offset = storage_offset, t_size = tsize, t_stride = stride,
              t_requires_grad = requires_grad, t_backward_hooks = backward_hooks,
              t_metadata = (case metadata of None \<Rightarrow> [] | Some m \<Rightarrow> m),
              t_is_param = False, t_attrs = []\<rparr>"
  using assms by (simp add: rebuild_tensor_value_def split: if_splits)

lemma torch_rebuild_tensor_v2_eq:
  "torch_rebuild_tensor_v2 storage storage_offset tsize stride requires_grad backward_hooks
       metadata w =
     (case rebuild_tensor_value storage storage_offset tsize stride requires_grad
             backward_hooks metadata of
        Inl e \<Rightarrow> (Inl e, w)
      | Inr t \<Rightarrow> (Inr t, w\<lparr>shown := shown w @ visible (wfilters w) (emits w RebuildTensor)\<rparr>))"
  by (simp add: torch_rebuild_tensor_v2_def lib_warn_eq split: sum.splits)

lemma rebuild_tensor_v2_Inr:
  assumes "fst (rebuild_tensor_v2 storage storage_offset tsize stride requires_grad
                  backward_hooks metadata u w) = Inr p"
  shows "own_load_tensor p = None"
    and "rebuild_args p =
           (storage_offset, tsize, stride, requires_grad, backward_hooks, metadata)"
    and "rebuild_tensor_value storage storage_offset tsize stride requires_grad
           backward_hooks metadata = Inr (metatensor p)"
    and "archiveinfo p = u"
    and "st_archiveinfo storage = Some (storageinfo p)"
  using assms
  by (auto simp: rebuild_tensor_v2_def torch_rebuild_tensor_v2_eq
      split: option.splits sum.splits)

text \<open>
  The method \<^verbatim>\<open>_load_tensor\<close>, step by step: the request is logged and the read may
  warn; a missing or short record ends it; the wrapping of the storage shows nothing;
  the rebuild may warn again.
\<close>

lemma load_tensor_eq:
  assumes si: "storageinfo p = (name, storage_cls, fn, device, n)"
    and ra: "rebuild_args p = (storage_offset, tsize, stride, requires_grad, backward_hooks,
                               metadata)"
  shows "load_tensor p w =
     (let dtype = t_dtype (metatensor p);
          nbytes = n * int (element_size dtype);
          w1 = w\<lparr>requests := requests w @ [(archiveinfo p, ''data/'' @ fn, nbytes)],
                 shown := shown w @ visible (wfilters w) (emits w GetStorageFromRecord)\<rparr>
      in case map_of (archives w (archiveinfo p)) (''data/'' @ fn) of
           None \<Rightarrow> (Inl (IOError (''data/'' @ fn)), w1)
         | Some bs \<Rightarrow>
             if nbytes < 0 \<or> int (length bs) < nbytes then (Inl (IOError (''data/'' @ fn)), w1)
             else (case rebuild_tensor_value
                          \<lparr>st_dtype = dtype,
                            st_untyped =
                              \<lparr>us_device = ''cpu'', us_bytes = take (nat nbytes) bs\<rparr>,
                            st_archiveinfo = None\<rparr>
                          storage_offset tsize stride requires_grad backward_hooks metadata of
                     Inl e \<Rightarrow> (Inl e, w1)
                   | Inr t \<Rightarrow>
                       (Inr t,
                        w1\<lparr>shown := shown w1 @
                                      visible (wfilters w) (emits w RebuildTensor)\<rparr>)))"
  by (simp add: load_tensor_def si ra get_storage_from_record_def Let_def catch_warnings_def
      typed_storage_wrap_def simplefilter_def lib_warn_eq visible_ignore
      torch_rebuild_tensor_v2_eq split: option.splits sum.splits)

lemma load_tensor_requests:
  "requests (snd (load_tensor p w)) = requests w @ [storage_request p]"
proof -
  obtain name storage_cls fn device n where si: "storageinfo p = (name, storage_cls, fn, device, n)"
    by (metis prod_cases5)
  obtain a b c d e f where ra: "rebuild_args p = (a, b, c, d, e, f)"
    by (metis prod_cases6)
  show ?thesis
    by (simp add: load_tensor_eq [OF si ra] storage_request_def si Let_def
        split: option.splits sum.splits)
qed

lemma load_tensor_frame:
  "archives (snd (load_tensor p w)) = archives w \<and>
   wfilters (snd (load_tensor p w)) = wfilters w \<and>
   emits (snd (load_tensor p w)) = emits w"
proof -
  obtain name storage_cls fn device n where si: "storageinfo p = (name, storage_cls, fn, device, n)"
    by (metis prod_cases5)
  obtain a b c d e f where ra: "rebuild_args p = (a, b, c, d, e, f)"
    by (metis prod_cases6)
  show ?thesis
    by (simp add: load_tensor_eq [OF si ra] Let_def split: option.splits sum.splits)
qed

lemma load_tensor_result:
  assumes "archives w (archiveinfo p) = archives w' (archiveinfo p)"
  shows "fst (load_tensor p w) = fst (load_tensor p w')"
proof -
  obtain name storage_cls fn device n where si: "storageinfo p = (name, storage_cls, fn, device, n)"
    by (metis prod_cases5)
  obtain a b c d e f where ra: "rebuild_args p = (a, b, c, d, e, f)"
    by (metis prod_cases6)
  show ?thesis
    by (simp add: load_tensor_eq [OF si ra] assms Let_def split: option.splits sum.splits)
qed

lemma load_tensor_meta:
  assumes "fst (load_tensor p w) = Inr t"
    and "rebuild_args p = (storage_offset, tsize, stride, requires_grad, backward_hooks, metadata)"
  shows "t_dtype t = t_dtype (metatensor p) \<and> t_size t = tsize \<and> t_stride t = stride"
proof -
  obtain name storage_cls fn device n where si: "storageinfo p = (name, storage_cls, fn, device, n)"
    by (metis prod_cases5)
  show ?thesis
    using assms(1)
    by (auto simp: load_tensor_eq [OF si assms(2)] Let_def
        dest!: rebuild_tensor_value_Inr split: option.splits if_splits sum.splits)
qed

lemma from_type_value_meta:
  "t_dtype (from_type_value t new_type state) = t_dtype t"
  "t_size (from_type_value t new_type state) = t_size t"
  "t_stride (from_type_value t new_type state) = t_stride t"
  "t_storage (from_type_value t new_type state) = t_storage t"
  "t_type (from_type_value t new_type state) = new_type"
  by (simp_all add: from_type_value_def as_subclass_def Let_def)

lemma parameter_value_Inr:
  assumes "parameter_value t requires_grad backward_hooks = Inr t'"
  shows "t' = t\<lparr>t_type := (case t_type t of CustomT c \<Rightarrow> CustomT c | _ \<Rightarrow> ParameterT),
                t_requires_grad := requires_grad, t_backward_hooks := backward_hooks,
                t_is_param := True, t_attrs := []\<rparr>"
  using assms by (simp add: parameter_value_def split: if_splits)

lemma from_type_load_tensor_eq:
  "from_type_load_tensor old_lt new_type state w =
     (case old_lt w of
        (Inl e, w1) \<Rightarrow> (Inl e, w1)
      | (Inr t, w1) \<Rightarrow>
          (Inr (from_type_value t new_type state),
           w1\<lparr>shown := shown w1 @ visible (wfilters w1) (emits w1 RebuildFromType)\<rparr>))"
  by (simp add: from_type_load_tensor_def torch_rebuild_from_type_v2_def lib_warn_eq
      split: prod.splits sum.splits)

lemma parameter_load_tensor_eq:
  "parameter_load_tensor old_lt requires_grad backward_hooks w =
     (case old_lt w of
        (Inl e, w1) \<Rightarrow> (Inl e, w1)
      | (Inr t, w1) \<Rightarrow>
          (case parameter_value t requires_grad backward_hooks of
             Inl e \<Rightarrow> (Inl e, w1)
           | Inr t' \<Rightarrow>
               (Inr t',
                w1\<lparr>shown := shown w1 @ visible (wfilters w1) (emits w1 RebuildParameter)\<rparr>)))"
  by (simp add: parameter_load_tensor_def torch_rebuild_parameter_def lib_warn_eq
      split: prod.splits sum.splits)

subsection \<open>The two closures\<close>

lemma from_type_load_tensor_fst:
  "fst (from_type_load_tensor old_lt new_type state w) =
     (case fst (old_lt w) of
        Inl e \<Rightarrow> Inl e
      | Inr t \<Rightarrow> Inr (from_type_value t new_type state))"
proof -
  obtain r w1 where "old_lt w = (r, w1)" by (cases "old_lt w")
  then show ?thesis by (cases r) (simp_all add: from_type_load_tensor_eq)
qed

lemma from_type_load_tensor_snd:
  "requests (snd (from_type_load_tensor old_lt new_type state w)) = requests (snd (old_lt w))"
  "archives (snd (from_type_load_tensor old_lt new_type state w)) = archives (snd (old_lt w))"
  "wfilters (snd (from_type_load_tensor old_lt new_type state w)) = wfilters (snd (old_lt w))"
  "emits (snd (from_type_load_tensor old_lt new_type state w)) = emits (snd (old_lt w))"
proof -
  obtain r w1 where "old_lt w = (r, w1)" by (cases "old_lt w")
  then show
    "requests (snd (from_type_load_tensor old_lt new_type state w)) = requests (snd (old_lt w))"
    "archives (snd (from_type_load_tensor old_lt new_type state w)) = archives (snd (old_lt w))"
    "wfilters (snd (from_type_load_tensor old_lt new_type state w)) = wfilters (snd (old_lt w))"
    "emits (snd (from_type_load_tensor old_lt new_type state w)) = emits (snd (old_lt w))"
    by (cases r; simp add: from_type_load_tensor_eq)+
qed

lemma parameter_load_tensor_fst:
  "fst (parameter_load_tensor old_lt requires_grad backward_hooks w) =
     (case fst (old_lt w) of
        Inl e \<Rightarrow> Inl e
      | Inr t \<Rightarrow> parameter_value t requires_grad backward_hooks)"
proof -
  obtain r w1 where "old_lt w = (r, w1)" by (cases "old_lt w")
  then show ?thesis
    by (cases r) (simp_all add: parameter_load_tensor_eq split: sum.splits)
qed

lemma parameter_load_tensor_snd:
  "requests (snd (parameter_load_tensor old_lt rg hk w)) = requests (snd (old_lt w))"
  "archives (snd (parameter_load_tensor old_lt rg hk w)) = archives (snd (old_lt w))"
  "wfilters (snd (parameter_load_tensor old_lt rg hk w)) = wfilters (snd (old_lt w))"
  "emits (snd (parameter_load_tensor old_lt rg hk w)) = emits (snd (old_lt w))"
proof -
  obtain r w1 where "old_lt w = (r, w1)" by (cases "old_lt w")
  then show
    "requests (snd (parameter_load_tensor old_lt rg hk w)) = requests (snd (old_lt w))"
    "archives (snd (parameter_load_tensor old_lt rg hk w)) = archives (snd (old_lt w))"
    "wfilters (snd (parameter_load_tensor old_lt rg hk w)) = wfilters (snd (old_lt w))"
    "emits (snd (parameter_load_tensor old_lt rg hk w)) = emits (snd (old_lt w))"
    by (cases r; simp add: parameter_load_tensor_eq split: sum.splits)+
qed

lemma lookup_own:
  "lookup_load_tensor (p\<lparr>own_load_tensor := Some f\<rparr>) = f"
  by (simp add: lookup_load_tensor_def)

lemma lookup_method:
  "own_load_tensor p = None \<Longrightarrow> lookup_load_tensor p = load_tensor p"
  by (simp add: lookup_load_tensor_def)

lemma storage_request_own:
  "storage_request (p\<lparr>own_load_tensor := f\<rparr>) = storage_request p"
  by (simp add: storage_request_def)

subsection \<open>What holds of every placeholder the loader makes\<close>

lemma produced_requests:
  "produced p \<Longrightarrow> requests (snd (lookup_load_tensor p w)) = requests w @ [storage_request p]"
proof (induction arbitrary: w rule: produced.induct)
  case (plain storage storage_offset tsize stride requires_grad backward_hooks metadata u w0 p)
  from rebuild_tensor_v2_Inr(1) [OF plain] have "own_load_tensor p = None" .
  then show ?case by (simp add: lookup_method load_tensor_requests)
next
  case (from_type p new_type state)
  show ?case
    by (simp only: lookup_own from_type_load_tensor_snd storage_request_own from_type.IH)
next
  case (parameter p requires_grad backward_hooks)
  show ?case
    by (simp only: lookup_own parameter_load_tensor_snd storage_request_own parameter.IH)
qed

lemma produced_frame:
  "produced p \<Longrightarrow>
     archives (snd (lookup_load_tensor p w)) = archives w \<and>
     wfilters (snd (lookup_load_tensor p w)) = wfilters w \<and>
     emits (snd (lookup_load_tensor p w)) = emits w"
proof (induction arbitrary: w rule: produced.induct)
  case (plain storage storage_offset tsize stride requires_grad backward_hooks metadata u w0 p)
  from rebuild_tensor_v2_Inr(1) [OF plain] have "own_load_tensor p = None" .
  then show ?case by (simp add: lookup_method load_tensor_frame)
next
  case (from_type p new_type state)
  show ?case
    by (simp only: lookup_own from_type_load_tensor_snd from_type.IH simp_thms)
next
  case (parameter p requires_grad backward_hooks)
  show ?case
    by (simp only: lookup_own parameter_load_tensor_snd parameter.IH simp_thms)
qed

lemma produced_result:
  "produced p \<Longrightarrow> archives w (archiveinfo p) = archives w' (archiveinfo p) \<Longrightarrow>
     fst (lookup_load_tensor p w) = fst (lookup_load_tensor p w')"
proof (induction arbitrary: w w' rule: produced.induct)
  case (plain storage storage_offset tsize stride requires_grad backward_hooks metadata u w0 p)
  from rebuild_tensor_v2_Inr(1) [OF plain(1)] have "own_load_tensor p = None" .
  then show ?case using load_tensor_result [OF plain(2)] by (simp add: lookup_method)
next
  case (from_type p new_type state)
  have "archives w (archiveinfo p) = archives w' (archiveinfo p)"
    using from_type.prems by simp
  then have "fst (lookup_load_tensor p w) = fst (lookup_load_tensor p w')"
    by (rule from_type.IH)
  then show ?case
    by (simp only: lookup_own from_type_load_tensor_fst)
next
  case (parameter p requires_grad backward_hooks)
  have "archives w (archiveinfo p) = archives w' (archiveinfo p)"
    using parameter.prems by simp
  then have "fst (lookup_load_tensor p w) = fst (lookup_load_tensor p w')"
    by (rule parameter.IH)
  then show ?case
    by (simp only: lookup_own parameter_load_tensor_fst)
qed

lemma produced_meta:
  "produced p \<Longrightarrow> fst (lookup_load_tensor p w) = Inr t \<Longrightarrow>
     t_dtype t = t_dtype (metatensor p) \<and> t_size t = t_size (metatensor p) \<and>
     t_stride t = t_stride (metatensor p)"
proof (induction arbitrary: w t rule: produced.induct)
  case (plain storage storage_offset tsize stride requires_grad backward_hooks metadata u w0 p)
  note p = rebuild_tensor_v2_Inr [OF plain(1)]
  have "own_load_tensor p = None" by (rule p(1))
  then have "fst (load_tensor p w) = Inr t"
    using plain(2) by (simp add: lookup_method)
  from load_tensor_meta [OF this p(2)] rebuild_tensor_value_Inr [OF p(3)] show ?case
    by simp
next
  case (from_type p new_type state)
  from from_type.prems obtain t0 where
    t0: "fst (lookup_load_tensor p w) = Inr t0"
    and t: "t = from_type_value t0 new_type state"
    by (auto simp: lookup_own from_type_load_tensor_fst split: sum.splits)
  from from_type.IH [OF t0] show ?case by (simp add: t from_type_value_meta)
next
  case (parameter p requires_grad backward_hooks)
  from parameter.prems obtain t0 where
    t0: "fst (lookup_load_tensor p w) = Inr t0"
    and t: "parameter_value t0 requires_grad backward_hooks = Inr t"
    by (auto simp: lookup_own parameter_load_tensor_fst split: sum.splits)
  from parameter.IH [OF t0] parameter_value_Inr [OF t] show ?case by simp
qed

subsection \<open>The small archive\<close>


lemma ex_rebuild_tensor_v2:
  "rebuild_tensor_v2 ex_storage 0 [2, 2] [2, 1] False [] None 0 ex_world =
     (Inr ex_placeholder, ex_world)"
  by (simp add: rebuild_tensor_v2_def torch_rebuild_tensor_v2_eq rebuild_tensor_value_def
      ex_storage_def ex_placeholder_def ex_metatensor_def ex_world_def ex_emits_def
      visible_def)

lemma ex_produced: "produced ex_placeholder"
  by (rule produced.plain [of ex_storage 0 "[2, 2]" "[2, 1]" False "[]" None 0 ex_world])
     (simp add: ex_rebuild_tensor_v2)

lemma ex_load_tensor:
  "load_tensor ex_placeholder ex_world =
     (Inr ex_tensor,
      ex_world\<lparr>requests := [(0, ''data/0'', 16)], shown := [(RuntimeWarning, ''slow read'')]\<rparr>)"
  by (simp add: load_tensor_def ex_placeholder_def ex_pid_def ex_metatensor_def
      get_storage_from_record_def Let_def catch_warnings_def typed_storage_wrap_def
      simplefilter_def lib_warn_eq visible_def torch_rebuild_tensor_v2_def
      rebuild_tensor_value_def needed_bytes_def ex_world_def ex_emits_def ex_bytes_def
      ex_tensor_def)

lemma ex_lookup_load_tensor:
  "lookup_load_tensor ex_placeholder ex_world =
     (Inr ex_tensor,
      ex_world\<lparr>requests := [(0, ''data/0'', 16)], shown := [(RuntimeWarning, ''slow read'')]\<rparr>)"
proof -
  have "lookup_load_tensor ex_placeholder = load_tensor ex_placeholder"
    by (simp add: lookup_load_tensor_def ex_placeholder_def)
  then show ?thesis by (simp only: ex_load_tensor)
qed

lemma ex_storage_request: "storage_request ex_placeholder = (0, ''data/0'', 16)"
  by (simp add: storage_request_def ex_placeholder_def ex_pid_def ex_metatensor_def)

subsection \<open>Traversals\<close>

lemma traversal_return:
  "archives w = archives w0 \<Longrightarrow> R x \<Longrightarrow> traversal w0 w [] R (Inr x, w)"
  by (simp add: traversal_def)

lemma traversal_map:
  assumes "traversal w0 w lvs R res"
    and "\<And>x. R x \<Longrightarrow> R' (f x)"
  shows "traversal w0 w lvs R'
           (case res of (Inl e, w1) \<Rightarrow> (Inl e, w1) | (Inr x, w1) \<Rightarrow> (Inr (f x), w1))"
proof -
  obtain r w1 where res: "res = (r, w1)" by (cases res)
  show ?thesis
    using assms by (cases r) (auto simp: traversal_def res)
qed

lemma traversal_bind:
  assumes first: "traversal w0 w l1 R1 res"
    and rest: "\<And>x w1. res = (Inr x, w1) \<Longrightarrow> R1 x \<Longrightarrow> archives w1 = archives w0 \<Longrightarrow>
                 traversal w0 w1 l2 (R2 x) (k x w1)"
  shows "traversal w0 w (l1 @ l2) (\<lambda>y. \<exists>x. R1 x \<and> R2 x y)
           (case res of (Inl e, w1) \<Rightarrow> (Inl e, w1) | (Inr x, w1) \<Rightarrow> k x w1)"
proof -
  obtain r w1 where res: "res = (r, w1)" by (cases res)
  show ?thesis
  proof (cases r)
    case (Inl e)
    with first show ?thesis by (auto simp: traversal_def res)
  next
    case (Inr x)
    with first have x: "R1 x" and a: "archives w1 = archives w0"
      and q: "requests w1 = requests w @ concat (map arg_requests l1)"
      by (auto simp: traversal_def res)
    from rest [OF _ x a] have t: "traversal w0 w1 l2 (R2 x) (k x w1)"
      by (simp add: res Inr)
    obtain r2 w2 where k: "k x w1 = (r2, w2)" by (cases "k x w1")
    show ?thesis
      using t x q by (cases r2) (auto simp: traversal_def res Inr k)
  qed
qed

lemma traversal_weaken:
  "traversal w0 w lvs R res \<Longrightarrow> (\<And>x. R x \<Longrightarrow> R' x) \<Longrightarrow> traversal w0 w lvs R' res"
  by (auto simp: traversal_def split: sum.splits)

lemma load_arg_traversal:
  assumes "produced_obj a" and w: "archives w = archives w0"
  shows "traversal w0 w [a] (\<lambda>b. materialized w0 a = Inr b) (load_arg a w)"
proof (cases a)
  case (NotYetLoaded p)
  with assms have p: "produced p" by (simp add: produced_obj_def)
  obtain r w1 where l: "lookup_load_tensor p w = (r, w1)" by (cases "lookup_load_tensor p w")
  have same: "fst (lookup_load_tensor p w0) = r"
    using produced_result [OF p, of w0 w] w l by simp
  have fr: "archives w1 = archives w0"
    using produced_frame [OF p, of w] w l by simp
  have rq: "requests w1 = requests w @ [storage_request p]"
    using produced_requests [OF p, of w] l by simp
  show ?thesis
    by (cases r)
       (simp_all add: traversal_def load_arg_def NotYetLoaded l materialized_def same fr rq
          arg_requests_def)
next
  case (Tensor t)
  then show ?thesis
    using w by (simp add: traversal_def load_arg_def materialized_def arg_requests_def)
next
  case PyNone
  then show ?thesis
    using w by (simp add: traversal_def load_arg_def materialized_def arg_requests_def)
next
  case (Other obj)
  then show ?thesis
    using w by (simp add: traversal_def load_arg_def materialized_def arg_requests_def)
qed

lemma loaded_args_traversal:
  "list_all produced_obj args \<Longrightarrow> archives w = archives w0 \<Longrightarrow>
     traversal w0 w args (list_all2 (\<lambda>a b. materialized w0 a = Inr b) args)
       (loaded_args args w)"
proof (induction args arbitrary: w)
  case Nil
  then show ?case by (simp add: traversal_return)
next
  case (Cons a args)
  from Cons.prems have a: "produced_obj a" and args: "list_all produced_obj args"
    by simp_all
  let ?R2 = "\<lambda>x y. \<exists>as. list_all2 (\<lambda>a b. materialized w0 a = Inr b) args as \<and> y = x # as"
  have "traversal w0 w ([a] @ args)
          (\<lambda>y. \<exists>x. materialized w0 a = Inr x \<and> ?R2 x y)
          (case load_arg a w of
             (Inl e, w1) \<Rightarrow> (Inl e, w1)
           | (Inr x, w1) \<Rightarrow>
               (case loaded_args args w1 of
                  (Inl e, w2) \<Rightarrow> (Inl e, w2)
                | (Inr as, w2) \<Rightarrow> (Inr (x # as), w2)))"
  proof (rule traversal_bind [OF load_arg_traversal [OF a Cons.prems(2)]])
    fix x :: pyobj and w1 :: world
    assume w1: "archives w1 = archives w0"
    show "traversal w0 w1 args (?R2 x)
            (case loaded_args args w1 of
               (Inl e, w2) \<Rightarrow> (Inl e, w2)
             | (Inr as, w2) \<Rightarrow> (Inr (x # as), w2))"
      by (rule traversal_map [OF Cons.IH [OF args w1]]) simp
  qed
  then have "traversal w0 w (a # args)
               (\<lambda>y. \<exists>x. materialized w0 a = Inr x \<and> ?R2 x y) (loaded_args (a # args) w)"
    by simp
  then show ?case
  proof (rule traversal_weaken)
    fix y assume "\<exists>x. materialized w0 a = Inr x \<and> ?R2 x y"
    then obtain x as where "materialized w0 a = Inr x" "y = x # as"
      "list_all2 (\<lambda>a b. materialized w0 a = Inr b) args as" by blast
    then show "list_all2 (\<lambda>a b. materialized w0 a = Inr b) (a # args) y" by simp
  qed
qed

lemma apply_to_leaf:
  "apply_to_collection (Leaf obj) materialize_load_tensor w =
     (case load_arg obj w of
        (Inl e, w1) \<Rightarrow> (Inl e, w1)
      | (Inr r, w1) \<Rightarrow> (Inr (Leaf r), w1))"
  by (cases obj) (simp_all add: load_arg_def materialize_load_tensor_def
      split: prod.splits sum.splits)

lemma apply_to_collection_traversal:
  "f = materialize_load_tensor \<Longrightarrow> list_all produced_obj (leaves c) \<Longrightarrow>
     archives w = archives w0 \<Longrightarrow>
     traversal w0 w (leaves c) (replaced w0 c) (apply_to_collection c f w)"
  "f = materialize_load_tensor \<Longrightarrow> list_all produced_obj (leaves_items kvs) \<Longrightarrow>
     archives w = archives w0 \<Longrightarrow>
     traversal w0 w (leaves_items kvs) (replaced_items w0 kvs) (apply_to_items kvs f w)"
  "f = materialize_load_tensor \<Longrightarrow> list_all produced_obj (leaves_elements cs) \<Longrightarrow>
     archives w = archives w0 \<Longrightarrow>
     traversal w0 w (leaves_elements cs) (replaced_elements w0 cs)
       (apply_to_elements cs f w)"
proof (induction c f w and kvs f w and cs f w
    rule: apply_to_collection_apply_to_items_apply_to_elements.induct)
  case (1 obj f w)
  from 1(2) have obj: "produced_obj obj" by simp
  have "traversal w0 w [obj] (replaced w0 (Leaf obj))
          (case load_arg obj w of
             (Inl e, w1) \<Rightarrow> (Inl e, w1)
           | (Inr r, w1) \<Rightarrow> (Inr (Leaf r), w1))"
    by (rule traversal_map [OF load_arg_traversal [OF obj 1(3)]]) simp
  then show ?case by (simp only: 1(1) apply_to_leaf leaves.simps)
next
  case (2 kvs f w)
  from 2(3) have "list_all produced_obj (leaves_items kvs)" by simp
  note ih = 2(1) [OF 2(2) this 2(4)]
  have "traversal w0 w (leaves_items kvs) (replaced w0 (Mapping kvs))
          (case apply_to_items kvs f w of
             (Inl e, w1) \<Rightarrow> (Inl e, w1)
           | (Inr out, w1) \<Rightarrow> (Inr (Mapping out), w1))"
    by (rule traversal_map [OF ih]) simp
  then show ?case by simp
next
  case (3 cs f w)
  from 3(3) have "list_all produced_obj (leaves_elements cs)" by simp
  note ih = 3(1) [OF 3(2) this 3(4)]
  have "traversal w0 w (leaves_elements cs) (replaced w0 (Sequence cs))
          (case apply_to_elements cs f w of
             (Inl e, w1) \<Rightarrow> (Inl e, w1)
           | (Inr out, w1) \<Rightarrow> (Inr (Sequence out), w1))"
    by (rule traversal_map [OF ih]) simp
  then show ?case by simp
next
  case (4 f w)
  then show ?case by (simp add: traversal_return)
next
  case (5 kv kvs f w)
  from 5(4) have hd: "list_all produced_obj (leaves (snd kv))"
    and tl: "list_all produced_obj (leaves_items kvs)" by simp_all
  note ih1 = 5(1) [OF 5(3) hd 5(5)]
  let ?R2 = "\<lambda>v y. \<exists>out. replaced_items w0 kvs out \<and> y = (fst kv, v) # out"
  have "traversal w0 w (leaves (snd kv) @ leaves_items kvs)
          (\<lambda>y. \<exists>v. replaced w0 (snd kv) v \<and> ?R2 v y)
          (case apply_to_collection (snd kv) f w of
             (Inl e, w1) \<Rightarrow> (Inl e, w1)
           | (Inr v, w1) \<Rightarrow>
               (case apply_to_items kvs f w1 of
                  (Inl e, w2) \<Rightarrow> (Inl e, w2)
                | (Inr out, w2) \<Rightarrow> (Inr ((fst kv, v) # out), w2)))"
  proof (rule traversal_bind [OF ih1])
    fix v :: collection and w1 :: world
    assume r: "apply_to_collection (snd kv) f w = (Inr v, w1)"
      and w1: "archives w1 = archives w0"
    note ih2 = 5(2) [OF r [symmetric] refl 5(3) tl w1]
    show "traversal w0 w1 (leaves_items kvs) (?R2 v)
            (case apply_to_items kvs f w1 of
               (Inl e, w2) \<Rightarrow> (Inl e, w2)
             | (Inr out, w2) \<Rightarrow> (Inr ((fst kv, v) # out), w2))"
      by (rule traversal_map [OF ih2]) simp
  qed
  then have "traversal w0 w (leaves_items (kv # kvs))
               (\<lambda>y. \<exists>v. replaced w0 (snd kv) v \<and> ?R2 v y)
               (apply_to_items (kv # kvs) f w)"
    by simp
  then show ?case
  proof (rule traversal_weaken)
    fix y assume "\<exists>v. replaced w0 (snd kv) v \<and> ?R2 v y"
    then obtain v out where "replaced w0 (snd kv) v" "replaced_items w0 kvs out"
      "y = (fst kv, v) # out" by blast
    then show "replaced_items w0 (kv # kvs) y" by simp
  qed
next
  case (6 f w)
  then show ?case by (simp add: traversal_return)
next
  case (7 c cs f w)
  from 7(4) have hd: "list_all produced_obj (leaves c)"
    and tl: "list_all produced_obj (leaves_elements cs)" by simp_all
  note ih1 = 7(1) [OF 7(3) hd 7(5)]
  let ?R2 = "\<lambda>v y. \<exists>out. replaced_elements w0 cs out \<and> y = v # out"
  have "traversal w0 w (leaves c @ leaves_elements cs)
          (\<lambda>y. \<exists>v. replaced w0 c v \<and> ?R2 v y)
          (case apply_to_collection c f w of
             (Inl e, w1) \<Rightarrow> (Inl e, w1)
           | (Inr v, w1) \<Rightarrow>
               (case apply_to_elements cs f w1 of
                  (Inl e, w2) \<Rightarrow> (Inl e, w2)
                | (Inr out, w2) \<Rightarrow> (Inr (v # out), w2)))"
  proof (rule traversal_bind [OF ih1])
    fix v :: collection and w1 :: world
    assume r: "apply_to_collection c f w = (Inr v, w1)"
      and w1: "archives w1 = archives w0"
    note ih2 = 7(2) [OF r [symmetric] refl 7(3) tl w1]
    show "traversal w0 w1 (leaves_elements cs) (?R2 v)
            (case apply_to_elements cs f w1 of
               (Inl e, w2) \<Rightarrow> (Inl e, w2)
             | (Inr out, w2) \<Rightarrow> (Inr (v # out), w2))"
      by (rule traversal_map [OF ih2]) simp
  qed
  then have "traversal w0 w (leaves_elements (c # cs))
               (\<lambda>y. \<exists>v. replaced w0 c v \<and> ?R2 v y)
               (apply_to_elements (c # cs) f w)"
    by simp
  then show ?case
  proof (rule traversal_weaken)
    fix y assume "\<exists>v. replaced w0 c v \<and> ?R2 v y"
    then obtain v out where "replaced w0 c v" "replaced_elements w0 cs out"
      "y = v # out" by blast
    then show "replaced_elements w0 (c # cs) y" by simp
  qed
qed

subsection \<open>The nested reconstruction, lazy and eager\<close>

lemma rebuild_tensor_value_fails_off_meta:
  assumes "rebuild_tensor_value s1 a b c d e f = Inl x"
    and "us_device (st_untyped s1) = ''meta''"
    and "st_dtype s2 = st_dtype s1"
  shows "\<exists>y. rebuild_tensor_value s2 a b c d e f = Inl y"
  using assms by (auto simp: rebuild_tensor_value_def split: if_splits)

lemma eager_typed_parameter_fst:
  "fst (eager_typed_parameter u (name, cls, fn, device, n) storage_offset tsize stride rg0
          hooks0 metadata new_type state requires_grad backward_hooks w) =
     (case map_of (archives w u) (''data/'' @ fn) of
        None \<Rightarrow> Inl (IOError (''data/'' @ fn))
      | Some bs \<Rightarrow>
          if n * int (element_size (cls_dtype cls)) < 0 \<or>
             int (length bs) < n * int (element_size (cls_dtype cls))
          then Inl (IOError (''data/'' @ fn))
          else (case rebuild_tensor_value
                       \<lparr>st_dtype = cls_dtype cls,
                         st_untyped = \<lparr>us_device = device,
                           us_bytes = take (nat (n * int (element_size (cls_dtype cls)))) bs\<rparr>,
                         st_archiveinfo = None\<rparr>
                       storage_offset tsize stride rg0 hooks0 metadata of
                  Inl e \<Rightarrow> Inl e
                | Inr t \<Rightarrow>
                    parameter_value (from_type_value t new_type state) requires_grad
                      backward_hooks))"
  by (simp add: eager_typed_parameter_def eager_persistent_load_def
      get_storage_from_record_def typed_storage_wrap_def restore_location_def
      torch_rebuild_from_type_v2_def eager_rebuild_tensor_v2_def torch_rebuild_tensor_v2_eq
      torch_rebuild_parameter_def lib_warn_eq Let_def split: option.splits sum.splits)

lemma typed_parameter_load_fst:
  assumes si: "storageinfo p0 = (name, cls, fn, device, n)"
    and ra: "rebuild_args p0 = (storage_offset, tsize, stride, rg0, hooks0, metadata)"
    and dt: "t_dtype (metatensor p0) = cls_dtype cls"
    and u: "archiveinfo p0 = u"
  shows "fst (parameter_load_tensor (from_type_load_tensor (load_tensor p0) new_type state)
                requires_grad backward_hooks w) =
     (case map_of (archives w u) (''data/'' @ fn) of
        None \<Rightarrow> Inl (IOError (''data/'' @ fn))
      | Some bs \<Rightarrow>
          if n * int (element_size (cls_dtype cls)) < 0 \<or>
             int (length bs) < n * int (element_size (cls_dtype cls))
          then Inl (IOError (''data/'' @ fn))
          else (case rebuild_tensor_value
                       \<lparr>st_dtype = cls_dtype cls,
                         st_untyped = \<lparr>us_device = ''cpu'',
                           us_bytes = take (nat (n * int (element_size (cls_dtype cls)))) bs\<rparr>,
                         st_archiveinfo = None\<rparr>
                       storage_offset tsize stride rg0 hooks0 metadata of
                  Inl e \<Rightarrow> Inl e
                | Inr t \<Rightarrow>
                    parameter_value (from_type_value t new_type state) requires_grad
                      backward_hooks))"
  by (simp add: parameter_load_tensor_fst from_type_load_tensor_fst load_tensor_eq [OF si ra]
      dt u Let_def split: option.splits sum.splits)

section \<open>The claims\<close>

text \<open>
  C7. For every persistent-reference tuple (logical name, storage class, record name,
  device tag, element count), \<^verbatim>\<open>persistent_load\<close> returns a storage descriptor with no
  bytes, whose element type is that of the storage class, whose device is the meta
  device, and which carries the whole tuple; no archive record is asked for, and the
  archives are as before.
\<close>

theorem persistent_load_descriptor:
  "fst (persistent_load (name, cls, fn, device, n) w) =
     \<lparr>st_dtype = cls_dtype cls, st_untyped = \<lparr>us_device = ''meta'', us_bytes = []\<rparr>,
       st_archiveinfo = Some (name, cls, fn, device, n)\<rparr> \<and>
   requests (snd (persistent_load (name, cls, fn, device, n) w)) = requests w \<and>
   archives (snd (persistent_load (name, cls, fn, device, n) w)) = archives w"
  by (simp add: persistent_load_eq)

text \<open>
  C3. Materialization by the method \<^verbatim>\<open>_load_tensor\<close> asks the archive reader of the
  placeholder's unpickler for exactly one read, of the record \<^verbatim>\<open>data/<fn>\<close> and of
  element count times element size bytes, and nothing else is read; this also holds of
  the \<^verbatim>\<open>_load_tensor\<close> attribute of every placeholder the loader makes, wrapped or
  not. When the read fails, its error is the result. Otherwise the stored rebuild
  arguments (offset, size, stride, requires-grad flag, backward hooks, metadata) are
  applied: the result is what the library's rebuild returns for the bytes read and these
  arguments. A tensor it returns has exactly that offset, size, stride, flag, hooks and
  metadata over the bytes read; the rebuild raises, for one, when the view does not fit
  the bytes read.
\<close>

theorem load_tensor_single_read:
  "requests (snd (load_tensor p w)) = requests w @ [storage_request p] \<and>
   archives (snd (load_tensor p w)) = archives w \<and>
   (produced p \<longrightarrow>
      requests (snd (lookup_load_tensor p w)) = requests w @ [storage_request p]) \<and>
   (storageinfo p = (name, storage_cls, fn, device, n) \<and>
    rebuild_args p = (storage_offset, tsize, stride, requires_grad, backward_hooks, metadata)
    \<longrightarrow>
      storage_request p =
        (archiveinfo p, ''data/'' @ fn, n * int (element_size (t_dtype (metatensor p)))) \<and>
      fst (load_tensor p w) =
        (case map_of (archives w (archiveinfo p)) (''data/'' @ fn) of
           None \<Rightarrow> Inl (IOError (''data/'' @ fn))
         | Some bs \<Rightarrow>
             if n * int (element_size (t_dtype (metatensor p))) < 0 \<or>
                int (length bs) < n * int (element_size (t_dtype (metatensor p)))
             then Inl (IOError (''data/'' @ fn))
             else rebuild_tensor_value
                    \<lparr>st_dtype = t_dtype (metatensor p),
                      st_untyped = \<lparr>us_device = ''cpu'',
                        us_bytes = take (nat (n * int (element_size (t_dtype (metatensor p))))) bs\<rparr>,
                      st_archiveinfo = None\<rparr>
                    storage_offset tsize stride requires_grad backward_hooks metadata) \<and>
      (\<forall>t. fst (load_tensor p w) = Inr t \<longrightarrow>
         (\<exists>bs. map_of (archives w (archiveinfo p)) (''data/'' @ fn) = Some bs \<and>
               t = \<lparr>t_type = TensorT, t_dtype = t_dtype (metatensor p),
                     t_storage = \<lparr>us_device = ''cpu'',
                       us_bytes = take (nat (n * int (element_size (t_dtype (metatensor p))))) bs\<rparr>,
                     t_offset = storage_offset, t_size = tsize, t_stride = stride,
                     t_requires_grad = requires_grad, t_backward_hooks = backward_hooks,
                     t_metadata = (case metadata of None \<Rightarrow> [] | Some m \<Rightarrow> m),
                     t_is_param = False, t_attrs = []\<rparr> \<and>
               needed_bytes (t_dtype (metatensor p)) storage_offset tsize stride
                 \<le> n * int (element_size (t_dtype (metatensor p))))))"
proof -
  have one: "requests (snd (load_tensor p w)) = requests w @ [storage_request p]"
    by (rule load_tensor_requests)
  have two: "archives (snd (load_tensor p w)) = archives w"
    by (simp add: load_tensor_frame)
  have three: "produced p \<longrightarrow>
      requests (snd (lookup_load_tensor p w)) = requests w @ [storage_request p]"
    by (simp add: produced_requests)
  have four: "storageinfo p = (name, storage_cls, fn, device, n) \<and>
    rebuild_args p = (storage_offset, tsize, stride, requires_grad, backward_hooks, metadata)
    \<longrightarrow>
      storage_request p =
        (archiveinfo p, ''data/'' @ fn, n * int (element_size (t_dtype (metatensor p)))) \<and>
      fst (load_tensor p w) =
        (case map_of (archives w (archiveinfo p)) (''data/'' @ fn) of
           None \<Rightarrow> Inl (IOError (''data/'' @ fn))
         | Some bs \<Rightarrow>
             if n * int (element_size (t_dtype (metatensor p))) < 0 \<or>
                int (length bs) < n * int (element_size (t_dtype (metatensor p)))
             then Inl (IOError (''data/'' @ fn))
             else rebuild_tensor_value
                    \<lparr>st_dtype = t_dtype (metatensor p),
                      st_untyped = \<lparr>us_device = ''cpu'',
                        us_bytes = take (nat (n * int (element_size (t_dtype (metatensor p))))) bs\<rparr>,
                      st_archiveinfo = None\<rparr>
                    storage_offset tsize stride requires_grad backward_hooks metadata) \<and>
      (\<forall>t. fst (load_tensor p w) = Inr t \<longrightarrow>
         (\<exists>bs. map_of (archives w (archiveinfo p)) (''data/'' @ fn) = Some bs \<and>
               t = \<lparr>t_type = TensorT, t_dtype = t_dtype (metatensor p),
                     t_storage = \<lparr>us_device = ''cpu'',
                       us_bytes = take (nat (n * int (element_size (t_dtype (metatensor p))))) bs\<rparr>,
                     t_offset = storage_offset, t_size = tsize, t_stride = stride,
                     t_requires_grad = requires_grad, t_backward_hooks = backward_hooks,
                     t_metadata = (case metadata of None \<Rightarrow> [] | Some m \<Rightarrow> m),
                     t_is_param = False, t_attrs = []\<rparr> \<and>
               needed_bytes (t_dtype (metatensor p)) storage_offset tsize stride
                 \<le> n * int (element_size (t_dtype (metatensor p)))))"
  proof (intro impI, elim conjE)
    assume si: "storageinfo p = (name, storage_cls, fn, device, n)"
      and ra: "rebuild_args p =
                 (storage_offset, tsize, stride, requires_grad, backward_hooks, metadata)"
    let ?nb = "n * int (element_size (t_dtype (metatensor p)))"
    let ?st = "\<lambda>bs. \<lparr>st_dtype = t_dtype (metatensor p),
                      st_untyped = \<lparr>us_device = ''cpu'', us_bytes = take (nat ?nb) bs\<rparr>,
                      st_archiveinfo = None\<rparr>"
    have rq: "storage_request p = (archiveinfo p, ''data/'' @ fn, ?nb)"
      by (simp add: storage_request_def si)
    have res: "fst (load_tensor p w) =
        (case map_of (archives w (archiveinfo p)) (''data/'' @ fn) of
           None \<Rightarrow> Inl (IOError (''data/'' @ fn))
         | Some bs \<Rightarrow>
             if ?nb < 0 \<or> int (length bs) < ?nb then Inl (IOError (''data/'' @ fn))
             else rebuild_tensor_value (?st bs) storage_offset tsize stride requires_grad
                    backward_hooks metadata)"
      by (simp add: load_tensor_eq [OF si ra] Let_def split: option.splits sum.splits)
    have ok: "\<forall>t. fst (load_tensor p w) = Inr t \<longrightarrow>
         (\<exists>bs. map_of (archives w (archiveinfo p)) (''data/'' @ fn) = Some bs \<and>
               t = \<lparr>t_type = TensorT, t_dtype = t_dtype (metatensor p),
                     t_storage = \<lparr>us_device = ''cpu'', us_bytes = take (nat ?nb) bs\<rparr>,
                     t_offset = storage_offset, t_size = tsize, t_stride = stride,
                     t_requires_grad = requires_grad, t_backward_hooks = backward_hooks,
                     t_metadata = (case metadata of None \<Rightarrow> [] | Some m \<Rightarrow> m),
                     t_is_param = False, t_attrs = []\<rparr> \<and>
               needed_bytes (t_dtype (metatensor p)) storage_offset tsize stride \<le> ?nb)"
    proof (intro allI impI)
      fix t assume t: "fst (load_tensor p w) = Inr t"
      from t res obtain bs where
        bs: "map_of (archives w (archiveinfo p)) (''data/'' @ fn) = Some bs"
        and len: "\<not> (?nb < 0 \<or> int (length bs) < ?nb)"
        and rb: "rebuild_tensor_value (?st bs) storage_offset tsize stride requires_grad
                   backward_hooks metadata = Inr t"
        by (auto split: option.splits if_splits)
      from rb have fit: "\<not> int (length (take (nat ?nb) bs)) <
                           needed_bytes (t_dtype (metatensor p)) storage_offset tsize stride"
        by (simp add: rebuild_tensor_value_def split: if_splits)
      from len have nn: "0 \<le> ?nb" and le: "?nb \<le> int (length bs)" by simp_all
      then have "nat ?nb \<le> length bs" by linarith
      then have "length (take (nat ?nb) bs) = nat ?nb" by simp
      with nn have "int (length (take (nat ?nb) bs)) = ?nb" by simp
      with fit have "needed_bytes (t_dtype (metatensor p)) storage_offset tsize stride \<le> ?nb"
        by linarith
      with bs rebuild_tensor_value_Inr [OF rb]
      show "\<exists>bs. map_of (archives w (archiveinfo p)) (''data/'' @ fn) = Some bs \<and>
               t = \<lparr>t_type = TensorT, t_dtype = t_dtype (metatensor p),
                     t_storage = \<lparr>us_device = ''cpu'', us_bytes = take (nat ?nb) bs\<rparr>,
                     t_offset = storage_offset, t_size = tsize, t_stride = stride,
                     t_requires_grad = requires_grad, t_backward_hooks = backward_hooks,
                     t_metadata = (case metadata of None \<Rightarrow> [] | Some m \<Rightarrow> m),
                     t_is_param = False, t_attrs = []\<rparr> \<and>
               needed_bytes (t_dtype (metatensor p)) storage_offset tsize stride \<le> ?nb"
        by simp
    qed
    from rq res ok show "storage_request p =
        (archiveinfo p, ''data/'' @ fn, n * int (element_size (t_dtype (metatensor p)))) \<and>
      fst (load_tensor p w) =
        (case map_of (archives w (archiveinfo p)) (''data/'' @ fn) of
           None \<Rightarrow> Inl (IOError (''data/'' @ fn))
         | Some bs \<Rightarrow>
             if n * int (element_size (t_dtype (metatensor p))) < 0 \<or>
                int (length bs) < n * int (element_size (t_dtype (metatensor p)))
             then Inl (IOError (''data/'' @ fn))
             else rebuild_tensor_value
                    \<lparr>st_dtype = t_dtype (metatensor p),
                      st_untyped = \<lparr>us_device = ''cpu'',
                        us_bytes = take (nat (n * int (element_size (t_dtype (metatensor p))))) bs\<rparr>,
                      st_archiveinfo = None\<rparr>
                    storage_offset tsize stride requires_grad backward_hooks metadata) \<and>
      (\<forall>t. fst (load_tensor p w) = Inr t \<longrightarrow>
         (\<exists>bs. map_of (archives w (archiveinfo p)) (''data/'' @ fn) = Some bs \<and>
               t = \<lparr>t_type = TensorT, t_dtype = t_dtype (metatensor p),
                     t_storage = \<lparr>us_device = ''cpu'',
                       us_bytes = take (nat (n * int (element_size (t_dtype (metatensor p))))) bs\<rparr>,
                     t_offset = storage_offset, t_size = tsize, t_stride = stride,
                     t_requires_grad = requires_grad, t_backward_hooks = backward_hooks,
                     t_metadata = (case metadata of None \<Rightarrow> [] | Some m \<Rightarrow> m),
                     t_is_param = False, t_attrs = []\<rparr> \<and>
               needed_bytes (t_dtype (metatensor p)) storage_offset tsize stride
                 \<le> n * int (element_size (t_dtype (metatensor p)))))"
      by blast
  qed
  from one two three four show ?thesis by blast
qed

theorem load_tensor_single_read_witness:
  "produced ex_placeholder \<and>
   storageinfo ex_placeholder = (''weight'', FloatStorage, ''0'', ''cpu'', 4) \<and>
   rebuild_args ex_placeholder = (0, [2, 2], [2, 1], False, [], None) \<and>
   requests (snd (lookup_load_tensor ex_placeholder ex_world)) = [(0, ''data/0'', 16)] \<and>
   fst (load_tensor ex_placeholder ex_world) = Inr ex_tensor \<and>
   needed_bytes Float32 0 [2, 2] [2, 1] \<le> 16 \<and>
   produced ex_wide_placeholder \<and>
   storageinfo ex_wide_placeholder = (''weight'', FloatStorage, ''0'', ''cpu'', 4) \<and>
   rebuild_args ex_wide_placeholder = (0, [4, 4], [4, 1], False, [], None) \<and>
   requests (snd (load_tensor ex_wide_placeholder ex_world)) = [(0, ''data/0'', 16)] \<and>
   fst (load_tensor ex_wide_placeholder ex_world) =
     Inl (RuntimeError ''storage is not resizable'')"
proof -
  have wide: "fst (rebuild_tensor_v2 ex_storage 0 [4, 4] [4, 1] False [] None 0 ex_world) =
                Inr ex_wide_placeholder"
    by (simp add: rebuild_tensor_v2_def torch_rebuild_tensor_v2_eq rebuild_tensor_value_def
        ex_storage_def ex_wide_placeholder_def ex_metatensor_def)
  have pw: "produced ex_wide_placeholder"
    by (rule produced.plain [OF wide])
  have si: "storageinfo ex_placeholder = (''weight'', FloatStorage, ''0'', ''cpu'', 4)"
    and ra: "rebuild_args ex_placeholder = (0, [2, 2], [2, 1], False, [], None)"
    by (simp_all add: ex_placeholder_def ex_pid_def)
  have siw: "storageinfo ex_wide_placeholder = (''weight'', FloatStorage, ''0'', ''cpu'', 4)"
    and raw: "rebuild_args ex_wide_placeholder = (0, [4, 4], [4, 1], False, [], None)"
    by (simp_all add: ex_wide_placeholder_def ex_pid_def)
  note t1 = load_tensor_single_read [of ex_placeholder ex_world "''weight''" FloatStorage
      "''0''" "''cpu''" 4 0 "[2, 2]" "[2, 1]" False "[]" None]
  note t2 = load_tensor_single_read [of ex_wide_placeholder ex_world "''weight''" FloatStorage
      "''0''" "''cpu''" 4 0 "[4, 4]" "[4, 1]" False "[]" None]
  have l: "fst (load_tensor ex_placeholder ex_world) = Inr ex_tensor"
    by (simp add: ex_load_tensor)
  from t1 ex_produced
  have "requests (snd (lookup_load_tensor ex_placeholder ex_world)) =
          requests ex_world @ [storage_request ex_placeholder]"
    by blast
  then have rq: "requests (snd (lookup_load_tensor ex_placeholder ex_world)) =
                   [(0, ''data/0'', 16)]"
    by (simp add: ex_storage_request ex_world_def)
  from t1 si ra l
  have "needed_bytes (t_dtype (metatensor ex_placeholder)) 0 [2, 2] [2, 1]
          \<le> 4 * int (element_size (t_dtype (metatensor ex_placeholder)))"
    by blast
  then have nb: "needed_bytes Float32 0 [2, 2] [2, 1] \<le> 16"
    by (simp add: ex_placeholder_def ex_metatensor_def)
  from t2
  have "requests (snd (load_tensor ex_wide_placeholder ex_world)) =
          requests ex_world @ [storage_request ex_wide_placeholder]"
    by blast
  then have rqw: "requests (snd (load_tensor ex_wide_placeholder ex_world)) =
                    [(0, ''data/0'', 16)]"
    by (simp add: storage_request_def ex_wide_placeholder_def ex_pid_def ex_metatensor_def
        ex_world_def)
  from t2 siw raw
  have "fst (load_tensor ex_wide_placeholder ex_world) =
        (case map_of (archives ex_world (archiveinfo ex_wide_placeholder)) (''data/'' @ ''0'') of
           None \<Rightarrow> Inl (IOError (''data/'' @ ''0''))
         | Some bs \<Rightarrow>
             if 4 * int (element_size (t_dtype (metatensor ex_wide_placeholder))) < 0 \<or>
                int (length bs) < 4 * int (element_size (t_dtype (metatensor ex_wide_placeholder)))
             then Inl (IOError (''data/'' @ ''0''))
             else rebuild_tensor_value
                    \<lparr>st_dtype = t_dtype (metatensor ex_wide_placeholder),
                      st_untyped = \<lparr>us_device = ''cpu'',
                        us_bytes =
                          take (nat (4 * int (element_size
                                  (t_dtype (metatensor ex_wide_placeholder))))) bs\<rparr>,
                      st_archiveinfo = None\<rparr>
                    0 [4, 4] [4, 1] False [] None)"
    by blast
  then have lw: "fst (load_tensor ex_wide_placeholder ex_world) =
                   Inl (RuntimeError ''storage is not resizable'')"
    by (simp add: ex_wide_placeholder_def ex_metatensor_def ex_world_def ex_bytes_def
        rebuild_tensor_value_def needed_bytes_def)
  from ex_produced si ra rq l nb pw siw raw rqw lw show ?thesis by blast
qed

text \<open>
  C1. Let the inner build function return \<open>ret\<close>, leaving the world \<open>w1\<close>. When
  \<open>ret\<close> is a placeholder, \<^verbatim>\<open>rebuild_from_type_v2\<close> returns that placeholder with a new
  \<^verbatim>\<open>_load_tensor\<close>, in the very world \<open>w1\<close> (nothing is loaded); the new
  \<^verbatim>\<open>_load_tensor\<close>, when called, first runs the inner placeholder's \<^verbatim>\<open>_load_tensor\<close>
  and then applies the library's type-changing rebuild, with the new type and the
  captured state, to the tensor that was loaded (an error of the inner load is passed
  on). When \<open>ret\<close> is a tensor, the library's type-changing rebuild runs at once and its
  result is returned; a result, if there is one, is a tensor, never a placeholder.
\<close>

theorem rebuild_from_type_v2_defers_or_resolves:
  assumes "func args w = (Inr ret, w1)"
  shows "(\<forall>p. ret = NotYetLoaded p \<longrightarrow>
            (\<exists>p'. rebuild_from_type_v2 func new_type args state w = (Inr (NotYetLoaded p'), w1) \<and>
                  p' = p\<lparr>own_load_tensor := own_load_tensor p'\<rparr> \<and>
                  (\<forall>w'. lookup_load_tensor p' w' =
                     (case lookup_load_tensor p w' of
                        (Inl e, w2) \<Rightarrow> (Inl e, w2)
                      | (Inr t, w2) \<Rightarrow>
                          torch_rebuild_from_type_v2 (\<lambda>u w3. (Inr (Tensor t), w3)) new_type ()
                            state w2)) \<and>
                  (\<forall>w' t w2. lookup_load_tensor p w' = (Inr t, w2) \<longrightarrow>
                     lookup_load_tensor p' w' =
                       (Inr (from_type_value t new_type state), lib_warn RebuildFromType w2)))) \<and>
         (\<forall>t. ret = Tensor t \<longrightarrow>
            rebuild_from_type_v2 func new_type args state w =
              (case torch_rebuild_from_type_v2 func new_type args state w1 of
                 (Inl e, w2) \<Rightarrow> (Inl e, w2)
               | (Inr t', w2) \<Rightarrow> (Inr (Tensor t'), w2)) \<and>
            (\<forall>r w2. rebuild_from_type_v2 func new_type args state w = (Inr r, w2) \<longrightarrow>
                      (\<exists>t'. r = Tensor t')) \<and>
            (\<forall>w2. func args w1 = (Inr (Tensor t), w2) \<longrightarrow>
                    rebuild_from_type_v2 func new_type args state w =
                      (Inr (Tensor (from_type_value t new_type state)),
                       lib_warn RebuildFromType w2)))"
proof (intro conjI allI impI)
  fix p assume ret: "ret = NotYetLoaded p"
  let ?p' = "p\<lparr>own_load_tensor :=
                  Some (from_type_load_tensor (lookup_load_tensor p) new_type state)\<rparr>"
  have "rebuild_from_type_v2 func new_type args state w = (Inr (NotYetLoaded ?p'), w1)"
    by (simp add: rebuild_from_type_v2_def assms ret)
  moreover have "?p' = p\<lparr>own_load_tensor := own_load_tensor ?p'\<rparr>"
    by simp
  moreover have "\<forall>w'. lookup_load_tensor ?p' w' =
      (case lookup_load_tensor p w' of
         (Inl e, w2) \<Rightarrow> (Inl e, w2)
       | (Inr t, w2) \<Rightarrow>
           torch_rebuild_from_type_v2 (\<lambda>u w3. (Inr (Tensor t), w3)) new_type () state w2)"
    by (simp add: lookup_own from_type_load_tensor_def)
  moreover have "\<forall>w' t w2. lookup_load_tensor p w' = (Inr t, w2) \<longrightarrow>
      lookup_load_tensor ?p' w' =
        (Inr (from_type_value t new_type state), lib_warn RebuildFromType w2)"
    by (simp add: lookup_own from_type_load_tensor_eq lib_warn_eq)
  ultimately show "\<exists>p'. rebuild_from_type_v2 func new_type args state w =
                          (Inr (NotYetLoaded p'), w1) \<and>
                  p' = p\<lparr>own_load_tensor := own_load_tensor p'\<rparr> \<and>
                  (\<forall>w'. lookup_load_tensor p' w' =
                     (case lookup_load_tensor p w' of
                        (Inl e, w2) \<Rightarrow> (Inl e, w2)
                      | (Inr t, w2) \<Rightarrow>
                          torch_rebuild_from_type_v2 (\<lambda>u w3. (Inr (Tensor t), w3)) new_type ()
                            state w2)) \<and>
                  (\<forall>w' t w2. lookup_load_tensor p w' = (Inr t, w2) \<longrightarrow>
                     lookup_load_tensor p' w' =
                       (Inr (from_type_value t new_type state), lib_warn RebuildFromType w2))"
    by blast
next
  fix t assume ret: "ret = Tensor t"
  show eq: "rebuild_from_type_v2 func new_type args state w =
              (case torch_rebuild_from_type_v2 func new_type args state w1 of
                 (Inl e, w2) \<Rightarrow> (Inl e, w2)
               | (Inr t', w2) \<Rightarrow> (Inr (Tensor t'), w2))"
    by (simp add: rebuild_from_type_v2_def assms ret)
  {
    fix r w2 assume "rebuild_from_type_v2 func new_type args state w = (Inr r, w2)"
    then show "\<exists>t'. r = Tensor t'"
      by (auto simp: eq split: prod.splits sum.splits)
  }
  {
    fix w2 assume "func args w1 = (Inr (Tensor t), w2)"
    then show "rebuild_from_type_v2 func new_type args state w =
                      (Inr (Tensor (from_type_value t new_type state)),
                       lib_warn RebuildFromType w2)"
      by (simp add: eq torch_rebuild_from_type_v2_def)
  }
qed

theorem rebuild_from_type_v2_defers_or_resolves_witness:
  "lazy_rebuild_tensor_v2 0 (ex_storage, 0, [2, 2], [2, 1], False, [], None) ex_world =
     (Inr (NotYetLoaded ex_placeholder), ex_world) \<and>
   (\<exists>p'. rebuild_from_type_v2 (lazy_rebuild_tensor_v2 0) (CustomT ''Quantized'')
            (ex_storage, 0, [2, 2], [2, 1], False, [], None) [(''scale'', ''2'')] ex_world =
            (Inr (NotYetLoaded p'), ex_world) \<and>
          fst (lookup_load_tensor p' ex_world) =
            Inr (ex_tensor\<lparr>t_type := CustomT ''Quantized'', t_attrs := [(''scale'', ''2'')]\<rparr>)) \<and>
   rebuild_from_type_v2 (\<lambda>a w. (Inr (Tensor (ex_tensor\<lparr>t_attrs := [(''keep'', ''1'')]\<rparr>)), w))
       (CustomT ''Quantized'') () [(''scale'', ''2'')] ex_world =
     (Inr (Tensor (ex_tensor\<lparr>t_type := CustomT ''Quantized'',
                              t_attrs := [(''scale'', ''2'')]\<rparr>)), ex_world)"
proof -
  have lazy: "lazy_rebuild_tensor_v2 0 (ex_storage, 0, [2, 2], [2, 1], False, [], None)
                ex_world = (Inr (NotYetLoaded ex_placeholder), ex_world)"
    by (simp add: lazy_rebuild_tensor_v2_def ex_rebuild_tensor_v2)
  have conc: "(\<lambda>a w. (Inr (Tensor (ex_tensor\<lparr>t_attrs := [(''keep'', ''1'')]\<rparr>)), w)) () ex_world =
                (Inr (Tensor (ex_tensor\<lparr>t_attrs := [(''keep'', ''1'')]\<rparr>)), ex_world)"
    by simp
  note load = ex_lookup_load_tensor
  have quiet: "lib_warn RebuildFromType ex_world = ex_world"
    by (simp add: lib_warn_eq ex_world_def ex_emits_def visible_def)
  have quiet': "lib_warn RebuildFromType
                  (ex_world\<lparr>requests := [(0, ''data/0'', 16)],
                            shown := [(RuntimeWarning, ''slow read'')]\<rparr>) =
                ex_world\<lparr>requests := [(0, ''data/0'', 16)],
                         shown := [(RuntimeWarning, ''slow read'')]\<rparr>"
    by (simp add: lib_warn_eq ex_world_def ex_emits_def visible_def)
  have v1: "from_type_value ex_tensor (CustomT ''Quantized'') [(''scale'', ''2'')] =
              ex_tensor\<lparr>t_type := CustomT ''Quantized'', t_attrs := [(''scale'', ''2'')]\<rparr>"
    by (simp add: from_type_value_def as_subclass_def ex_tensor_def)
  have v2: "from_type_value (ex_tensor\<lparr>t_attrs := [(''keep'', ''1'')]\<rparr>) (CustomT ''Quantized'')
              [(''scale'', ''2'')] =
              ex_tensor\<lparr>t_type := CustomT ''Quantized'', t_attrs := [(''scale'', ''2'')]\<rparr>"
    by (simp add: from_type_value_def as_subclass_def ex_tensor_def)
  from rebuild_from_type_v2_defers_or_resolves
      [where func = "lazy_rebuild_tensor_v2 0"
         and args = "(ex_storage, 0, [2, 2], [2, 1], False, [], None)"
         and w = ex_world and ret = "NotYetLoaded ex_placeholder" and ?w1.0 = ex_world
         and new_type = "CustomT ''Quantized''" and state = "[(''scale'', ''2'')]", OF lazy]
  obtain p' where
    a: "rebuild_from_type_v2 (lazy_rebuild_tensor_v2 0) (CustomT ''Quantized'')
            (ex_storage, 0, [2, 2], [2, 1], False, [], None) [(''scale'', ''2'')] ex_world =
            (Inr (NotYetLoaded p'), ex_world)"
    and b: "\<forall>w' t w2. lookup_load_tensor ex_placeholder w' = (Inr t, w2) \<longrightarrow>
       lookup_load_tensor p' w' =
         (Inr (from_type_value t (CustomT ''Quantized'') [(''scale'', ''2'')]),
          lib_warn RebuildFromType w2)"
    by blast
  from b load
  have "lookup_load_tensor p' ex_world =
          (Inr (from_type_value ex_tensor (CustomT ''Quantized'') [(''scale'', ''2'')]),
           lib_warn RebuildFromType
             (ex_world\<lparr>requests := [(0, ''data/0'', 16)],
                       shown := [(RuntimeWarning, ''slow read'')]\<rparr>))"
    by blast
  then have c: "fst (lookup_load_tensor p' ex_world) =
            Inr (ex_tensor\<lparr>t_type := CustomT ''Quantized'', t_attrs := [(''scale'', ''2'')]\<rparr>)"
    by (simp add: v1)
  from a c
  have "\<exists>p'. rebuild_from_type_v2 (lazy_rebuild_tensor_v2 0) (CustomT ''Quantized'')
            (ex_storage, 0, [2, 2], [2, 1], False, [], None) [(''scale'', ''2'')] ex_world =
            (Inr (NotYetLoaded p'), ex_world) \<and>
          fst (lookup_load_tensor p' ex_world) =
            Inr (ex_tensor\<lparr>t_type := CustomT ''Quantized'', t_attrs := [(''scale'', ''2'')]\<rparr>)"
    by blast
  moreover from rebuild_from_type_v2_defers_or_resolves
      [where func = "\<lambda>a w. (Inr (Tensor (ex_tensor\<lparr>t_attrs := [(''keep'', ''1'')]\<rparr>)), w)"
         and args = "()" and w = ex_world
         and ret = "Tensor (ex_tensor\<lparr>t_attrs := [(''keep'', ''1'')]\<rparr>)" and ?w1.0 = ex_world
         and new_type = "CustomT ''Quantized''" and state = "[(''scale'', ''2'')]", OF conc]
  have "rebuild_from_type_v2
          (\<lambda>a w. (Inr (Tensor (ex_tensor\<lparr>t_attrs := [(''keep'', ''1'')]\<rparr>)), w))
          (CustomT ''Quantized'') () [(''scale'', ''2'')] ex_world =
     (Inr (Tensor (from_type_value (ex_tensor\<lparr>t_attrs := [(''keep'', ''1'')]\<rparr>)
                     (CustomT ''Quantized'') [(''scale'', ''2'')])),
      lib_warn RebuildFromType ex_world)"
    by blast
  then have "rebuild_from_type_v2
          (\<lambda>a w. (Inr (Tensor (ex_tensor\<lparr>t_attrs := [(''keep'', ''1'')]\<rparr>)), w))
          (CustomT ''Quantized'') () [(''scale'', ''2'')] ex_world =
     (Inr (Tensor (ex_tensor\<lparr>t_type := CustomT ''Quantized'',
                              t_attrs := [(''scale'', ''2'')]\<rparr>)), ex_world)"
    by (simp only: quiet v2)
  ultimately show ?thesis using lazy by blast
qed

text \<open>
  C8. For a placeholder the loader makes, what \<^verbatim>\<open>_load_tensor\<close> returns depends on
  the archive's records only: in any two worlds with the same archive it returns the
  same value (the same tensor, bytes included, or the same error). Materialization
  leaves the archives as they are, so a second materialization right after the first
  returns the same value again; each of the two asks for the record anew.
\<close>

theorem load_tensor_twice:
  assumes "produced p"
  shows "(archives w' = archives w \<longrightarrow>
            fst (lookup_load_tensor p w') = fst (lookup_load_tensor p w)) \<and>
         archives (snd (lookup_load_tensor p w)) = archives w \<and>
         fst (lookup_load_tensor p (snd (lookup_load_tensor p w))) =
           fst (lookup_load_tensor p w) \<and>
         requests (snd (lookup_load_tensor p (snd (lookup_load_tensor p w)))) =
           requests w @ [storage_request p, storage_request p]"
proof -
  have frame: "archives (snd (lookup_load_tensor p w)) = archives w"
    using produced_frame [OF assms] by simp
  have same: "archives w' = archives w \<longrightarrow>
                fst (lookup_load_tensor p w') = fst (lookup_load_tensor p w)"
    using produced_result [OF assms, of w' w] by simp
  have again: "fst (lookup_load_tensor p (snd (lookup_load_tensor p w))) =
                 fst (lookup_load_tensor p w)"
    by (rule produced_result [OF assms]) (simp add: frame)
  have reqs: "requests (snd (lookup_load_tensor p (snd (lookup_load_tensor p w)))) =
                requests w @ [storage_request p, storage_request p]"
    by (simp add: produced_requests [OF assms])
  from frame same again reqs show ?thesis by blast
qed

theorem load_tensor_twice_witness:
  "produced ex_placeholder \<and>
   fst (lookup_load_tensor ex_placeholder ex_world) = Inr ex_tensor \<and>
   fst (lookup_load_tensor ex_placeholder (snd (lookup_load_tensor ex_placeholder ex_world))) =
     Inr ex_tensor \<and>
   requests (snd (lookup_load_tensor ex_placeholder
                    (snd (lookup_load_tensor ex_placeholder ex_world)))) =
     [(0, ''data/0'', 16), (0, ''data/0'', 16)]"
proof -
  note load = ex_lookup_load_tensor
  note req = ex_storage_request
  have "requests ex_world = []" by (simp add: ex_world_def)
  with load_tensor_twice [OF ex_produced, of ex_world ex_world] load req ex_produced
  show ?thesis by simp
qed

text \<open>
  C2, as amended. Given a placeholder, \<^verbatim>\<open>rebuild_parameter\<close> returns it with a new
  \<^verbatim>\<open>_load_tensor\<close>, in the world it was called in; the new \<^verbatim>\<open>_load_tensor\<close> runs the
  old one and hands the loaded tensor to the library's parameter wrapper with the given
  requires-grad flag and backward hooks, and a tensor it returns is a parameter with
  that flag and those hooks. Given a tensor, the library's wrapper runs at once.
  For a parameter around a type-wrapped tensor, the unpickler's three steps, when they
  return, return a placeholder without any read; one materialization of it asks for the
  one record, and a tensor it returns is a parameter with the given requires-grad flag
  and hooks whose storage is on the CPU. When the reference's device tag is the CPU,
  that materialization returns what eager loading of the same reference returns (the
  same parameter, or the same error). When the three steps raise, eager loading raises
  as well.
\<close>

theorem rebuild_parameter_defers_or_wraps:
  "(\<exists>p'. rebuild_parameter (NotYetLoaded p) requires_grad backward_hooks w =
           (Inr (NotYetLoaded p'), w) \<and>
         p' = p\<lparr>own_load_tensor := own_load_tensor p'\<rparr> \<and>
         (\<forall>w'. lookup_load_tensor p' w' =
            (case lookup_load_tensor p w' of
               (Inl e, w2) \<Rightarrow> (Inl e, w2)
             | (Inr t, w2) \<Rightarrow>
                 torch_rebuild_parameter (Tensor t) requires_grad backward_hooks w2)) \<and>
         (\<forall>w' t'. fst (lookup_load_tensor p' w') = Inr t' \<longrightarrow>
            t_is_param t' \<and> t_requires_grad t' = requires_grad \<and>
            t_backward_hooks t' = backward_hooks)) \<and>
   rebuild_parameter (Tensor t0) requires_grad backward_hooks w =
     (case torch_rebuild_parameter (Tensor t0) requires_grad backward_hooks w of
        (Inl e, w1) \<Rightarrow> (Inl e, w1)
      | (Inr t', w1) \<Rightarrow> (Inr (Tensor t'), w1)) \<and>
   (\<forall>r w1. rebuild_parameter (Tensor t0) requires_grad backward_hooks w = (Inr r, w1) \<longrightarrow>
      (\<exists>t'. r = Tensor t' \<and> t_is_param t' \<and> t_requires_grad t' = requires_grad \<and>
            t_backward_hooks t' = backward_hooks \<and> t_storage t' = t_storage t0)) \<and>
   (\<forall>r w'. lazy_typed_parameter u (name, cls, fn, device, n) storage_offset tsize stride rg0
             hooks0 metadata new_type state requires_grad backward_hooks w = (Inr r, w') \<longrightarrow>
      (\<exists>p'. r = NotYetLoaded p' \<and>
            requests w' = requests w \<and>
            requests (snd (lookup_load_tensor p' w')) =
              requests w @ [(u, ''data/'' @ fn, n * int (element_size (cls_dtype cls)))] \<and>
            (\<forall>t. fst (lookup_load_tensor p' w') = Inr t \<longrightarrow>
               t_is_param t \<and> t_requires_grad t = requires_grad \<and>
               t_backward_hooks t = backward_hooks \<and>
               t_type t = (case new_type of CustomT c \<Rightarrow> CustomT c | _ \<Rightarrow> ParameterT) \<and>
               us_device (t_storage t) = ''cpu'') \<and>
            (device = ''cpu'' \<longrightarrow>
               fst (lookup_load_tensor p' w') =
                 fst (eager_typed_parameter u (name, cls, fn, device, n) storage_offset tsize
                        stride rg0 hooks0 metadata new_type state requires_grad
                        backward_hooks w)))) \<and>
   (\<forall>e w'. lazy_typed_parameter u (name, cls, fn, device, n) storage_offset tsize stride rg0
             hooks0 metadata new_type state requires_grad backward_hooks w = (Inl e, w') \<longrightarrow>
      requests w' = requests w \<and>
      (\<exists>e'. fst (eager_typed_parameter u (name, cls, fn, device, n) storage_offset tsize
                   stride rg0 hooks0 metadata new_type state requires_grad backward_hooks w) =
             Inl e'))"
proof (intro conjI)
  let ?p' = "p\<lparr>own_load_tensor :=
                  Some (parameter_load_tensor (lookup_load_tensor p) requires_grad
                          backward_hooks)\<rparr>"
  have "rebuild_parameter (NotYetLoaded p) requires_grad backward_hooks w =
          (Inr (NotYetLoaded ?p'), w)"
    by (simp add: rebuild_parameter_def)
  moreover have "?p' = p\<lparr>own_load_tensor := own_load_tensor ?p'\<rparr>"
    by simp
  moreover have "\<forall>w'. lookup_load_tensor ?p' w' =
            (case lookup_load_tensor p w' of
               (Inl e, w2) \<Rightarrow> (Inl e, w2)
             | (Inr t, w2) \<Rightarrow>
                 torch_rebuild_parameter (Tensor t) requires_grad backward_hooks w2)"
    by (simp add: lookup_own parameter_load_tensor_def)
  moreover have "\<forall>w' t'. fst (lookup_load_tensor ?p' w') = Inr t' \<longrightarrow>
            t_is_param t' \<and> t_requires_grad t' = requires_grad \<and>
            t_backward_hooks t' = backward_hooks"
    by (auto simp: lookup_own parameter_load_tensor_fst dest!: parameter_value_Inr
        split: sum.splits)
  ultimately show "\<exists>p'. rebuild_parameter (NotYetLoaded p) requires_grad backward_hooks w =
           (Inr (NotYetLoaded p'), w) \<and>
         p' = p\<lparr>own_load_tensor := own_load_tensor p'\<rparr> \<and>
         (\<forall>w'. lookup_load_tensor p' w' =
            (case lookup_load_tensor p w' of
               (Inl e, w2) \<Rightarrow> (Inl e, w2)
             | (Inr t, w2) \<Rightarrow>
                 torch_rebuild_parameter (Tensor t) requires_grad backward_hooks w2)) \<and>
         (\<forall>w' t'. fst (lookup_load_tensor p' w') = Inr t' \<longrightarrow>
            t_is_param t' \<and> t_requires_grad t' = requires_grad \<and>
            t_backward_hooks t' = backward_hooks)"
    by blast
next
  show "rebuild_parameter (Tensor t0) requires_grad backward_hooks w =
     (case torch_rebuild_parameter (Tensor t0) requires_grad backward_hooks w of
        (Inl e, w1) \<Rightarrow> (Inl e, w1)
      | (Inr t', w1) \<Rightarrow> (Inr (Tensor t'), w1))"
    by (simp add: rebuild_parameter_def)
next
  show "\<forall>r w1. rebuild_parameter (Tensor t0) requires_grad backward_hooks w = (Inr r, w1) \<longrightarrow>
      (\<exists>t'. r = Tensor t' \<and> t_is_param t' \<and> t_requires_grad t' = requires_grad \<and>
            t_backward_hooks t' = backward_hooks \<and> t_storage t' = t_storage t0)"
    by (auto simp: rebuild_parameter_def torch_rebuild_parameter_def
        dest!: parameter_value_Inr split: sum.splits)
next
  let ?pid = "(name, cls, fn, device, n)"
  let ?ms = "\<lparr>st_dtype = cls_dtype cls, st_untyped = \<lparr>us_device = ''meta'', us_bytes = []\<rparr>,
              st_archiveinfo = Some ?pid\<rparr>"
  let ?lazy = "lazy_typed_parameter u ?pid storage_offset tsize stride rg0 hooks0 metadata
                 new_type state requires_grad backward_hooks w"
  let ?eager = "eager_typed_parameter u ?pid storage_offset tsize stride rg0 hooks0 metadata
                  new_type state requires_grad backward_hooks w"
  let ?w' = "w\<lparr>shown := shown w @ visible (wfilters w) (emits w RebuildTensor)\<rparr>"
  show "\<forall>r w'. ?lazy = (Inr r, w') \<longrightarrow>
      (\<exists>p'. r = NotYetLoaded p' \<and>
            requests w' = requests w \<and>
            requests (snd (lookup_load_tensor p' w')) =
              requests w @ [(u, ''data/'' @ fn, n * int (element_size (cls_dtype cls)))] \<and>
            (\<forall>t. fst (lookup_load_tensor p' w') = Inr t \<longrightarrow>
               t_is_param t \<and> t_requires_grad t = requires_grad \<and>
               t_backward_hooks t = backward_hooks \<and>
               t_type t = (case new_type of CustomT c \<Rightarrow> CustomT c | _ \<Rightarrow> ParameterT) \<and>
               us_device (t_storage t) = ''cpu'') \<and>
            (device = ''cpu'' \<longrightarrow> fst (lookup_load_tensor p' w') = fst ?eager))"
  proof (intro allI impI)
    fix r w' assume lz: "?lazy = (Inr r, w')"
    from lz obtain mt where
      mt: "rebuild_tensor_value ?ms storage_offset tsize stride rg0 hooks0 metadata = Inr mt"
      by (auto simp: lazy_typed_parameter_def persistent_load_eq rebuild_from_type_v2_def
          lazy_rebuild_tensor_v2_def rebuild_tensor_v2_def torch_rebuild_tensor_v2_eq
          split: sum.splits)
    let ?p0 = "\<lparr>metatensor = mt, archiveinfo = u, storageinfo = ?pid,
                 rebuild_args = (storage_offset, tsize, stride, rg0, hooks0, metadata),
                 own_load_tensor = None\<rparr>"
    let ?cl = "parameter_load_tensor (from_type_load_tensor (load_tensor ?p0) new_type state)
                 requires_grad backward_hooks"
    let ?r = "?p0\<lparr>own_load_tensor := Some ?cl\<rparr>"
    have lazy: "?lazy = (Inr (NotYetLoaded ?r), ?w')"
      by (simp add: lazy_typed_parameter_def persistent_load_eq rebuild_from_type_v2_def
          lazy_rebuild_tensor_v2_def rebuild_tensor_v2_def torch_rebuild_tensor_v2_eq mt
          rebuild_parameter_def lookup_load_tensor_def)
    from lz lazy have r: "r = NotYetLoaded ?r" and w': "w' = ?w'" by simp_all
    have lk: "lookup_load_tensor ?r = ?cl"
      by (simp add: lookup_load_tensor_def)
    have si: "storageinfo ?p0 = ?pid" by simp
    have ra: "rebuild_args ?p0 = (storage_offset, tsize, stride, rg0, hooks0, metadata)"
      by simp
    have dt: "t_dtype (metatensor ?p0) = cls_dtype cls"
      using rebuild_tensor_value_Inr [OF mt] by simp
    have u: "archiveinfo ?p0 = u" by simp
    note fst_eq = typed_parameter_load_fst [OF si ra dt u, of new_type state requires_grad
        backward_hooks]
    have rq: "requests (snd (?cl ?w')) =
                requests w @ [(u, ''data/'' @ fn, n * int (element_size (cls_dtype cls)))]"
    proof -
      from dt have "t_dtype mt = cls_dtype cls" by simp
      then show ?thesis
        by (simp add: parameter_load_tensor_snd from_type_load_tensor_snd
            load_tensor_requests storage_request_def)
    qed
    have ok: "\<forall>t. fst (?cl ?w') = Inr t \<longrightarrow>
               t_is_param t \<and> t_requires_grad t = requires_grad \<and>
               t_backward_hooks t = backward_hooks \<and>
               t_type t = (case new_type of CustomT c \<Rightarrow> CustomT c | _ \<Rightarrow> ParameterT) \<and>
               us_device (t_storage t) = ''cpu''"
    proof (intro allI impI)
      fix t assume "fst (?cl ?w') = Inr t"
      then obtain t1 bs where
        t1: "rebuild_tensor_value
               \<lparr>st_dtype = cls_dtype cls,
                 st_untyped = \<lparr>us_device = ''cpu'',
                   us_bytes = take (nat (n * int (element_size (cls_dtype cls)))) bs\<rparr>,
                 st_archiveinfo = None\<rparr>
               storage_offset tsize stride rg0 hooks0 metadata = Inr t1"
        and t: "parameter_value (from_type_value t1 new_type state) requires_grad
                  backward_hooks = Inr t"
        by (auto simp: fst_eq split: option.splits if_splits sum.splits)
      from rebuild_tensor_value_Inr [OF t1] have "us_device (t_storage t1) = ''cpu''"
        by simp
      with parameter_value_Inr [OF t]
      show "t_is_param t \<and> t_requires_grad t = requires_grad \<and>
               t_backward_hooks t = backward_hooks \<and>
               t_type t = (case new_type of CustomT c \<Rightarrow> CustomT c | _ \<Rightarrow> ParameterT) \<and>
               us_device (t_storage t) = ''cpu''"
        by (simp add: from_type_value_meta split: tensor_type.splits)
    qed
    have eq: "device = ''cpu'' \<longrightarrow> fst (?cl ?w') = fst ?eager"
    proof
      assume d: "device = ''cpu''"
      have a: "archives ?w' = archives w" by simp
      show "fst (?cl ?w') = fst ?eager"
        unfolding fst_eq eager_typed_parameter_fst a unfolding d by (rule refl)
    qed
    have "requests ?w' = requests w" by simp
    with r w' lk rq ok eq
    show "\<exists>p'. r = NotYetLoaded p' \<and>
            requests w' = requests w \<and>
            requests (snd (lookup_load_tensor p' w')) =
              requests w @ [(u, ''data/'' @ fn, n * int (element_size (cls_dtype cls)))] \<and>
            (\<forall>t. fst (lookup_load_tensor p' w') = Inr t \<longrightarrow>
               t_is_param t \<and> t_requires_grad t = requires_grad \<and>
               t_backward_hooks t = backward_hooks \<and>
               t_type t = (case new_type of CustomT c \<Rightarrow> CustomT c | _ \<Rightarrow> ParameterT) \<and>
               us_device (t_storage t) = ''cpu'') \<and>
            (device = ''cpu'' \<longrightarrow> fst (lookup_load_tensor p' w') = fst ?eager)"
      by (intro exI [of _ ?r]) (simp only: simp_thms)
  qed
next
  let ?pid = "(name, cls, fn, device, n)"
  let ?ms = "\<lparr>st_dtype = cls_dtype cls, st_untyped = \<lparr>us_device = ''meta'', us_bytes = []\<rparr>,
              st_archiveinfo = Some ?pid\<rparr>"
  let ?lazy = "lazy_typed_parameter u ?pid storage_offset tsize stride rg0 hooks0 metadata
                 new_type state requires_grad backward_hooks w"
  let ?eager = "eager_typed_parameter u ?pid storage_offset tsize stride rg0 hooks0 metadata
                  new_type state requires_grad backward_hooks w"
  show "\<forall>e w'. ?lazy = (Inl e, w') \<longrightarrow>
          requests w' = requests w \<and> (\<exists>e'. fst ?eager = Inl e')"
  proof (intro allI impI)
    fix e w' assume lz: "?lazy = (Inl e, w')"
    from lz have fail: "rebuild_tensor_value ?ms storage_offset tsize stride rg0 hooks0
                          metadata = Inl e"
      and w': "w' = w"
      by (auto simp: lazy_typed_parameter_def persistent_load_eq rebuild_from_type_v2_def
          lazy_rebuild_tensor_v2_def rebuild_tensor_v2_def torch_rebuild_tensor_v2_eq
          rebuild_parameter_def split: sum.splits)
    have "\<exists>e'. fst ?eager = Inl e'"
    proof (cases "map_of (archives w u) (''data/'' @ fn)")
      case None
      then show ?thesis by (simp add: eager_typed_parameter_fst)
    next
      case (Some bs)
      let ?cs = "\<lparr>st_dtype = cls_dtype cls,
                   st_untyped = \<lparr>us_device = device,
                     us_bytes = take (nat (n * int (element_size (cls_dtype cls)))) bs\<rparr>,
                   st_archiveinfo = None\<rparr>"
      from rebuild_tensor_value_fails_off_meta [OF fail, of ?cs]
      obtain y where "rebuild_tensor_value ?cs storage_offset tsize stride rg0 hooks0
                        metadata = Inl y"
        by auto
      with Some show ?thesis by (simp add: eager_typed_parameter_fst)
    qed
    with w' show "requests w' = requests w \<and> (\<exists>e'. fst ?eager = Inl e')" by simp
  qed
qed

theorem rebuild_parameter_defers_or_wraps_witness:
  "(\<exists>r w'. lazy_typed_parameter 0 (''weight'', FloatStorage, ''0'', ''cpu'', 4) 0 [2, 2] [2, 1]
             False [] None (CustomT ''Quantized'') [(''scale'', ''2'')] True [] ex_world =
             (Inr (NotYetLoaded r), w') \<and>
           requests w' = [] \<and>
           fst (lookup_load_tensor r w') = Inr (ex_parameter ''cpu'')) \<and>
   ''cpu'' = ''cpu'' \<and>
   fst (eager_typed_parameter 0 (''weight'', FloatStorage, ''0'', ''cpu'', 4) 0 [2, 2]
          [2, 1] False [] None (CustomT ''Quantized'') [(''scale'', ''2'')] True []
          ex_world) = Inr (ex_parameter ''cpu'') \<and>
   t_is_param (ex_parameter ''cpu'') \<and> t_requires_grad (ex_parameter ''cpu'') = True \<and>
   (\<exists>e w'. lazy_typed_parameter 0 (''weight'', LongStorage, ''0'', ''cpu'', 2) 0 [2] [1]
             True [] None (CustomT ''Quantized'') [(''scale'', ''2'')] False [] ex_world =
             (Inl e, w') \<and>
           requests w' = [] \<and>
           (\<exists>e'. fst (eager_typed_parameter 0 (''weight'', LongStorage, ''0'', ''cpu'', 2) 0 [2]
                        [1] True [] None (CustomT ''Quantized'') [(''scale'', ''2'')] False []
                        ex_world) = Inl e'))"
proof -
  have eager: "fst (eager_typed_parameter 0 (''weight'', FloatStorage, ''0'', ''cpu'', 4) 0
                 [2, 2] [2, 1] False [] None (CustomT ''Quantized'') [(''scale'', ''2'')] True []
                 ex_world) = Inr (ex_parameter ''cpu'')"
    by (simp add: eager_typed_parameter_fst rebuild_tensor_value_def needed_bytes_def
        parameter_value_def from_type_value_def as_subclass_def ex_world_def ex_bytes_def
        ex_parameter_def)
  obtain r w' where lz: "lazy_typed_parameter 0 (''weight'', FloatStorage, ''0'', ''cpu'', 4)
      0 [2, 2] [2, 1] False [] None (CustomT ''Quantized'') [(''scale'', ''2'')] True [] ex_world
      = (Inr r, w')"
    by (simp add: lazy_typed_parameter_def persistent_load_eq rebuild_from_type_v2_def
        lazy_rebuild_tensor_v2_def rebuild_tensor_v2_def torch_rebuild_tensor_v2_eq
        rebuild_tensor_value_def rebuild_parameter_def)
  obtain e w2 where fl: "lazy_typed_parameter 0 (''weight'', LongStorage, ''0'', ''cpu'', 2)
      0 [2] [1] True [] None (CustomT ''Quantized'') [(''scale'', ''2'')] False [] ex_world
      = (Inl e, w2)"
    by (simp add: lazy_typed_parameter_def persistent_load_eq rebuild_from_type_v2_def
        lazy_rebuild_tensor_v2_def rebuild_tensor_v2_def torch_rebuild_tensor_v2_eq
        rebuild_tensor_value_def rebuild_parameter_def)
  note t1 = rebuild_parameter_defers_or_wraps
      [where u = 0 and name = "''weight''" and cls = FloatStorage and fn = "''0''"
         and device = "''cpu''" and n = 4 and storage_offset = 0 and tsize = "[2, 2]"
         and stride = "[2, 1]" and ?rg0.0 = False and ?hooks0.0 = "[]" and metadata = None
         and new_type = "CustomT ''Quantized''" and state = "[(''scale'', ''2'')]"
         and requires_grad = True and backward_hooks = "[]" and w = ex_world]
  note t2 = rebuild_parameter_defers_or_wraps
      [where u = 0 and name = "''weight''" and cls = LongStorage and fn = "''0''"
         and device = "''cpu''" and n = 2 and storage_offset = 0 and tsize = "[2]"
         and stride = "[1]" and ?rg0.0 = True and ?hooks0.0 = "[]" and metadata = None
         and new_type = "CustomT ''Quantized''" and state = "[(''scale'', ''2'')]"
         and requires_grad = False and backward_hooks = "[]" and w = ex_world]
  have rq0: "requests ex_world = []" by (simp add: ex_world_def)
  from t1 lz obtain p' where
    a: "r = NotYetLoaded p'" and b: "requests w' = requests ex_world"
    and c: "''cpu'' = ''cpu'' \<longrightarrow> fst (lookup_load_tensor p' w') =
              fst (eager_typed_parameter 0 (''weight'', FloatStorage, ''0'', ''cpu'', 4) 0
                     [2, 2] [2, 1] False [] None (CustomT ''Quantized'') [(''scale'', ''2'')]
                     True [] ex_world)"
    and d: "\<forall>t. fst (lookup_load_tensor p' w') = Inr t \<longrightarrow>
               t_is_param t \<and> t_requires_grad t = True \<and> t_backward_hooks t = [] \<and>
               t_type t = (case CustomT ''Quantized'' of CustomT c \<Rightarrow> CustomT c
                           | _ \<Rightarrow> ParameterT) \<and>
               us_device (t_storage t) = ''cpu''"
    by blast
  from c eager have l: "fst (lookup_load_tensor p' w') = Inr (ex_parameter ''cpu'')"
    by simp
  with d have f: "t_is_param (ex_parameter ''cpu'') \<and>
                  t_requires_grad (ex_parameter ''cpu'') = True"
    by blast
  from lz a b l rq0
  have first: "\<exists>r w'. lazy_typed_parameter 0 (''weight'', FloatStorage, ''0'', ''cpu'', 4) 0
             [2, 2] [2, 1] False [] None (CustomT ''Quantized'') [(''scale'', ''2'')] True []
             ex_world = (Inr (NotYetLoaded r), w') \<and>
           requests w' = [] \<and>
           fst (lookup_load_tensor r w') = Inr (ex_parameter ''cpu'')"
    by auto
  from t2 fl have "requests w2 = requests ex_world \<and>
      (\<exists>e'. fst (eager_typed_parameter 0 (''weight'', LongStorage, ''0'', ''cpu'', 2) 0 [2]
                   [1] True [] None (CustomT ''Quantized'') [(''scale'', ''2'')] False []
                   ex_world) = Inl e')"
    by blast
  with fl rq0
  have second: "\<exists>e w'. lazy_typed_parameter 0 (''weight'', LongStorage, ''0'', ''cpu'', 2) 0
             [2] [1] True [] None (CustomT ''Quantized'') [(''scale'', ''2'')] False [] ex_world =
             (Inl e, w') \<and>
           requests w' = [] \<and>
           (\<exists>e'. fst (eager_typed_parameter 0 (''weight'', LongStorage, ''0'', ''cpu'', 2) 0 [2]
                        [1] True [] None (CustomT ''Quantized'') [(''scale'', ''2'')] False []
                        ex_world) = Inl e')"
    by auto
  from first eager f second show ?thesis by simp
qed

text \<open>
  C2, as stated, fails for a reference tagged for another device: the lazily loaded
  parameter, once materialized, has its storage on the CPU, while eager loading of the
  same reference has it on the tagged device.
\<close>

theorem lazy_ignores_device_counterexample:
  "materialize_once
     (lazy_typed_parameter 0 (''weight'', FloatStorage, ''0'', ''cuda:0'', 4) 0 [2, 2] [2, 1]
        False [] None (CustomT ''Quantized'') [(''scale'', ''2'')] True [] ex_world) =
     Inr (ex_parameter ''cpu'') \<and>
   fst (eager_typed_parameter 0 (''weight'', FloatStorage, ''0'', ''cuda:0'', 4) 0 [2, 2]
          [2, 1] False [] None (CustomT ''Quantized'') [(''scale'', ''2'')] True [] ex_world) =
     Inr (ex_parameter ''cuda:0'') \<and>
   ex_parameter ''cpu'' \<noteq> ex_parameter ''cuda:0''"
proof -
  let ?p0 = "\<lparr>metatensor = ex_metatensor, archiveinfo = 0,
               storageinfo = (''weight'', FloatStorage, ''0'', ''cuda:0'', 4),
               rebuild_args = (0, [2, 2], [2, 1], False, [], None),
               own_load_tensor = None\<rparr>"
  have si: "storageinfo ?p0 = (''weight'', FloatStorage, ''0'', ''cuda:0'', 4)" by simp
  have ra: "rebuild_args ?p0 = (0, [2, 2], [2, 1], False, [], None)" by simp
  have dt: "t_dtype (metatensor ?p0) = cls_dtype FloatStorage"
    by (simp add: ex_metatensor_def)
  have u: "archiveinfo ?p0 = 0" by simp
  have "materialize_once
     (lazy_typed_parameter 0 (''weight'', FloatStorage, ''0'', ''cuda:0'', 4) 0 [2, 2] [2, 1]
        False [] None (CustomT ''Quantized'') [(''scale'', ''2'')] True [] ex_world) =
     fst (parameter_load_tensor
            (from_type_load_tensor (load_tensor ?p0) (CustomT ''Quantized'')
               [(''scale'', ''2'')]) True []
            (ex_world\<lparr>shown := shown ex_world @
                 visible (wfilters ex_world) (emits ex_world RebuildTensor)\<rparr>))"
    by (simp add: materialize_once_def lazy_typed_parameter_def persistent_load_eq
        rebuild_from_type_v2_def lazy_rebuild_tensor_v2_def rebuild_tensor_v2_def
        torch_rebuild_tensor_v2_eq rebuild_tensor_value_def rebuild_parameter_def
        lookup_load_tensor_def ex_metatensor_def)
  also have "\<dots> = Inr (ex_parameter ''cpu'')"
    by (simp add: typed_parameter_load_fst [OF si ra dt u] rebuild_tensor_value_def
        needed_bytes_def parameter_value_def from_type_value_def as_subclass_def
        ex_world_def ex_bytes_def ex_parameter_def)
  finally have lazy: "materialize_once
     (lazy_typed_parameter 0 (''weight'', FloatStorage, ''0'', ''cuda:0'', 4) 0 [2, 2] [2, 1]
        False [] None (CustomT ''Quantized'') [(''scale'', ''2'')] True [] ex_world) =
     Inr (ex_parameter ''cpu'')" .
  have eager: "fst (eager_typed_parameter 0 (''weight'', FloatStorage, ''0'', ''cuda:0'', 4) 0
          [2, 2] [2, 1] False [] None (CustomT ''Quantized'') [(''scale'', ''2'')] True []
          ex_world) = Inr (ex_parameter ''cuda:0'')"
    by (simp add: eager_typed_parameter_fst rebuild_tensor_value_def needed_bytes_def
        parameter_value_def from_type_value_def as_subclass_def ex_world_def ex_bytes_def
        ex_parameter_def)
  have "ex_parameter ''cpu'' \<noteq> ex_parameter ''cuda:0''"
    by (simp add: ex_parameter_def)
  with lazy eager show ?thesis by blast
qed

text \<open>
  C4, as amended. For every placeholder the loader makes, reading \<^verbatim>\<open>shape\<close> and
  \<^verbatim>\<open>dtype\<close> before materialization succeeds without any read request and gives the
  meta tensor's values, and these are the shape and the element type of any tensor that
  materializing the placeholder returns; that tensor's stride is the meta tensor's stride
  as well. The stride itself cannot be read through the placeholder: \<^verbatim>\<open>stride\<close> is not
  on the allow-list of \<^verbatim>\<open>__getattr__\<close>, and the read raises the attribute error, with
  the world untouched.
\<close>

theorem placeholder_metadata:
  assumes "produced p"
  shows "getattr p ''shape'' w = (Inr (ShapeV (t_size (metatensor p))), lib_warn TensorGetattr w) \<and>
         getattr p ''dtype'' w = (Inr (DtypeV (t_dtype (metatensor p))), lib_warn TensorGetattr w) \<and>
         requests (lib_warn TensorGetattr w) = requests w \<and>
         (\<forall>t w'. fst (lookup_load_tensor p w') = Inr t \<longrightarrow>
            fst (tensor_getattr t ''shape'' w') = fst (getattr p ''shape'' w) \<and>
            fst (tensor_getattr t ''dtype'' w') = fst (getattr p ''dtype'' w) \<and>
            t_stride t = t_stride (metatensor p)) \<and>
         getattr p ''stride'' w =
           (Inl (AttributeError (type_repr @ '' does not have stride'')), w)"
proof -
  have shape: "getattr p ''shape'' w =
                 (Inr (ShapeV (t_size (metatensor p))), lib_warn TensorGetattr w)"
    by (simp add: getattr_def allow_list_def tensor_getattr_def Let_def)
  have dtype: "getattr p ''dtype'' w =
                 (Inr (DtypeV (t_dtype (metatensor p))), lib_warn TensorGetattr w)"
    by (simp add: getattr_def allow_list_def tensor_getattr_def Let_def)
  have quiet: "requests (lib_warn TensorGetattr w) = requests w"
    by (simp add: lib_warn_eq)
  have stride: "getattr p ''stride'' w =
                  (Inl (AttributeError (type_repr @ '' does not have stride'')), w)"
    by (simp add: getattr_def allow_list_def)
  have after: "\<forall>t w'. fst (lookup_load_tensor p w') = Inr t \<longrightarrow>
            fst (tensor_getattr t ''shape'' w') = fst (getattr p ''shape'' w) \<and>
            fst (tensor_getattr t ''dtype'' w') = fst (getattr p ''dtype'' w) \<and>
            t_stride t = t_stride (metatensor p)"
  proof (intro allI impI)
    fix t w' assume "fst (lookup_load_tensor p w') = Inr t"
    from produced_meta [OF assms this]
    show "fst (tensor_getattr t ''shape'' w') = fst (getattr p ''shape'' w) \<and>
            fst (tensor_getattr t ''dtype'' w') = fst (getattr p ''dtype'' w) \<and>
            t_stride t = t_stride (metatensor p)"
      by (simp add: shape dtype tensor_getattr_def Let_def)
  qed
  from shape dtype quiet after stride show ?thesis by blast
qed

theorem placeholder_metadata_witness:
  "produced ex_placeholder \<and>
   fst (lookup_load_tensor ex_placeholder ex_world) = Inr ex_tensor \<and>
   fst (getattr ex_placeholder ''shape'' ex_world) = Inr (ShapeV [2, 2]) \<and>
   fst (tensor_getattr ex_tensor ''shape'' ex_world) = Inr (ShapeV [2, 2]) \<and>
   fst (getattr ex_placeholder ''dtype'' ex_world) = Inr (DtypeV Float32) \<and>
   fst (tensor_getattr ex_tensor ''dtype'' ex_world) = Inr (DtypeV Float32) \<and>
   t_stride ex_tensor = [2, 1]"
proof -
  have load: "fst (lookup_load_tensor ex_placeholder ex_world) = Inr ex_tensor"
    by (simp add: ex_lookup_load_tensor)
  note m = placeholder_metadata [OF ex_produced, of ex_world]
  from m load have
    "fst (tensor_getattr ex_tensor ''shape'' ex_world) =
       fst (getattr ex_placeholder ''shape'' ex_world) \<and>
     fst (tensor_getattr ex_tensor ''dtype'' ex_world) =
       fst (getattr ex_placeholder ''dtype'' ex_world) \<and>
     t_stride ex_tensor = t_stride (metatensor ex_placeholder)"
    by blast
  moreover from m have
    "fst (getattr ex_placeholder ''shape'' ex_world) =
       Inr (ShapeV (t_size (metatensor ex_placeholder)))"
    "fst (getattr ex_placeholder ''dtype'' ex_world) =
       Inr (DtypeV (t_dtype (metatensor ex_placeholder)))"
    by simp_all
  ultimately show ?thesis
    using ex_produced load by (simp add: ex_placeholder_def ex_metatensor_def)
qed

text \<open>
  C4, as stated, fails for the stride: on the placeholder that \<^verbatim>\<open>rebuild_tensor_v2\<close>
  makes from the small archive, reading \<^verbatim>\<open>stride\<close> raises the attribute error before
  materialization, while the materialized tensor has the attribute.
\<close>

theorem placeholder_stride_counterexample:
  "fst (rebuild_tensor_v2 ex_storage 0 [2, 2] [2, 1] False [] None 0 ex_world) =
     Inr ex_placeholder \<and>
   fst (getattr ex_placeholder ''stride'' ex_world) =
     Inl (AttributeError (type_repr @ '' does not have stride'')) \<and>
   fst (lookup_load_tensor ex_placeholder ex_world) = Inr ex_tensor \<and>
   fst (tensor_getattr ex_tensor ''stride'' ex_world) = Inr (BoundMethod ''stride'' ex_tensor)"
  by (simp add: ex_rebuild_tensor_v2 ex_lookup_load_tensor getattr_def allow_list_def
      tensor_getattr_def tensor_methods_def Let_def)



text \<open>
  C5, as amended. When every placeholder among the positional arguments is one the
  loader made, \<^verbatim>\<open>__torch_function__\<close> materializes the positional arguments in
  argument order (the reads are asked for in that order, and nothing else is read) and
  then runs the operation on the list in which each placeholder is replaced by its
  tensor and every other argument is itself; the keyword arguments are handed to the
  operation as they are. When materializing an argument raises, that error is the
  result and the operation is not run.
\<close>

theorem torch_function_positional:
  assumes "list_all produced_obj args"
  shows "(\<exists>la w1. torch_function func types args kwargs w =
                    func la (case kwargs of None \<Rightarrow> [] | Some kw \<Rightarrow> kw) w1 \<and>
                  list_all2 (\<lambda>a b. materialized w a = Inr b) args la \<and>
                  requests w1 = requests w @ concat (map arg_requests args) \<and>
                  archives w1 = archives w) \<or>
         (\<exists>e w1 a. a \<in> set args \<and> materialized w a = Inl e \<and>
                    torch_function func types args kwargs w = (Inl e, w1))"
proof -
  note t = loaded_args_traversal [OF assms refl, of w]
  obtain r w1 where l: "loaded_args args w = (r, w1)" by (cases "loaded_args args w")
  show ?thesis
  proof (cases r)
    case (Inl e)
    with t l obtain a where "a \<in> set args" "materialized w a = Inl e"
      by (auto simp: traversal_def)
    moreover have "torch_function func types args kwargs w = (Inl e, w1)"
      by (simp add: torch_function_def l Inl)
    ultimately show ?thesis by blast
  next
    case (Inr la)
    with t l have "list_all2 (\<lambda>a b. materialized w a = Inr b) args la"
      and "requests w1 = requests w @ concat (map arg_requests args)"
      and "archives w1 = archives w"
      by (auto simp: traversal_def)
    moreover have "torch_function func types args kwargs w =
                     func la (case kwargs of None \<Rightarrow> [] | Some kw \<Rightarrow> kw) w1"
      by (simp add: torch_function_def l Inr)
    ultimately show ?thesis by blast
  qed
qed

theorem torch_function_positional_witness:
  "list_all produced_obj [NotYetLoaded ex_placeholder, Other ''2''] \<and>
   (\<exists>w1. torch_function (\<lambda>la kw w. (Inr (la, kw), w)) () [NotYetLoaded ex_placeholder, Other ''2'']
            (Some [(''alpha'', Other ''1'')]) ex_world =
            (Inr ([Tensor ex_tensor, Other ''2''], [(''alpha'', Other ''1'')]), w1) \<and>
          requests w1 = [(0, ''data/0'', 16)])"
proof -
  have p: "list_all produced_obj [NotYetLoaded ex_placeholder, Other ''2'']"
    by (simp add: produced_obj_def ex_produced)
  have m1: "materialized ex_world (NotYetLoaded ex_placeholder) = Inr (Tensor ex_tensor)"
    by (simp add: materialized_def ex_lookup_load_tensor)
  have m2: "materialized ex_world (Other ''2'') = Inr (Other ''2'')"
    by (simp add: materialized_def)
  have rq: "arg_requests (NotYetLoaded ex_placeholder) = [(0, ''data/0'', 16)]"
    "arg_requests (Other ''2'') = []" "requests ex_world = []"
    by (simp_all add: arg_requests_def ex_storage_request ex_world_def)
  from torch_function_positional [OF p, of "\<lambda>la kw w. (Inr (la, kw), w)" "()"
      "Some [(''alpha'', Other ''1'')]" ex_world]
  have "\<exists>w1. torch_function (\<lambda>la kw w. (Inr (la, kw), w)) ()
            [NotYetLoaded ex_placeholder, Other ''2''] (Some [(''alpha'', Other ''1'')]) ex_world =
            (Inr ([Tensor ex_tensor, Other ''2''], [(''alpha'', Other ''1'')]), w1) \<and>
          requests w1 = [(0, ''data/0'', 16)]"
    by (auto simp: m1 m2 rq list_all2_Cons1)
  with p show ?thesis by blast
qed

text \<open>
  C5, as stated, fails for keyword arguments: an operation called with a placeholder
  as a keyword argument is run with the placeholder still in place, and nothing has been
  read.
\<close>

theorem torch_function_kwargs_counterexample:
  "torch_function (\<lambda>la kw w. (Inr (la, kw), w)) () [Tensor ex_tensor]
     (Some [(''other'', NotYetLoaded ex_placeholder)]) ex_world =
     (Inr ([Tensor ex_tensor], [(''other'', NotYetLoaded ex_placeholder)]), ex_world)"
  by (simp add: torch_function_def load_arg_def)

text \<open>
  C9. For a nested structure of mappings, sequences and leaf objects whose placeholders
  are of the loader's making, \<^verbatim>\<open>_materialize_tensors\<close> returns a structure with the same
  containers, keys and order, in which each placeholder leaf is replaced by the tensor
  its \<^verbatim>\<open>_load_tensor\<close> returns and every other leaf is the leaf it was; the reads asked
  for are those of the placeholder leaves, in traversal order. When materializing a leaf
  raises, that error is the result.
\<close>

theorem materialize_tensors_replaces:
  assumes "list_all produced_obj (leaves c)"
  shows "((\<exists>c' w1. materialize_tensors c w = (Inr c', w1) \<and> replaced w c c' \<and>
                   requests w1 = requests w @ concat (map arg_requests (leaves c)) \<and>
                   archives w1 = archives w) \<or>
          (\<exists>e w1 a. a \<in> set (leaves c) \<and> materialized w a = Inl e \<and>
                     materialize_tensors c w = (Inl e, w1))) \<and>
         (\<forall>p b. materialized w (NotYetLoaded p) = Inr b \<longrightarrow>
                  (\<exists>t. b = Tensor t \<and> fst (lookup_load_tensor p w) = Inr t)) \<and>
         (\<forall>t. materialized w (Tensor t) = Inr (Tensor t)) \<and>
         (\<forall>obj. materialized w (Other obj) = Inr (Other obj))"
proof -
  note t = apply_to_collection_traversal(1) [OF refl assms refl, of w]
  obtain r w1 where l: "materialize_tensors c w = (r, w1)"
    by (cases "materialize_tensors c w")
  have first: "(\<exists>c' w1. materialize_tensors c w = (Inr c', w1) \<and> replaced w c c' \<and>
                   requests w1 = requests w @ concat (map arg_requests (leaves c)) \<and>
                   archives w1 = archives w) \<or>
          (\<exists>e w1 a. a \<in> set (leaves c) \<and> materialized w a = Inl e \<and>
                     materialize_tensors c w = (Inl e, w1))"
  proof (cases r)
    case (Inl e)
    with t l obtain a where "a \<in> set (leaves c)" "materialized w a = Inl e"
      by (auto simp: traversal_def materialize_tensors_def)
    with l Inl show ?thesis by blast
  next
    case (Inr c')
    with t l have "replaced w c c'"
      and "requests w1 = requests w @ concat (map arg_requests (leaves c))"
      and "archives w1 = archives w"
      by (auto simp: traversal_def materialize_tensors_def)
    with l Inr show ?thesis by blast
  qed
  have second: "\<forall>p b. materialized w (NotYetLoaded p) = Inr b \<longrightarrow>
                  (\<exists>t. b = Tensor t \<and> fst (lookup_load_tensor p w) = Inr t)"
    by (auto simp: materialized_def split: sum.splits)
  have third: "\<forall>t. materialized w (Tensor t) = Inr (Tensor t)"
    by (simp add: materialized_def)
  have fourth: "\<forall>obj. materialized w (Other obj) = Inr (Other obj)"
    by (simp add: materialized_def)
  from first second third fourth show ?thesis by blast
qed

theorem materialize_tensors_replaces_witness:
  "list_all produced_obj
     (leaves (Mapping [(''weight'', Leaf (NotYetLoaded ex_placeholder)),
                       (''extra'', Sequence [Leaf (Other ''epoch''), Leaf (Tensor ex_tensor)])])) \<and>
   fst (materialize_tensors
          (Mapping [(''weight'', Leaf (NotYetLoaded ex_placeholder)),
                    (''extra'', Sequence [Leaf (Other ''epoch''), Leaf (Tensor ex_tensor)])])
          ex_world) =
     Inr (Mapping [(''weight'', Leaf (Tensor ex_tensor)),
                   (''extra'', Sequence [Leaf (Other ''epoch''), Leaf (Tensor ex_tensor)])]) \<and>
   replaced ex_world
     (Mapping [(''weight'', Leaf (NotYetLoaded ex_placeholder)),
               (''extra'', Sequence [Leaf (Other ''epoch''), Leaf (Tensor ex_tensor)])])
     (Mapping [(''weight'', Leaf (Tensor ex_tensor)),
               (''extra'', Sequence [Leaf (Other ''epoch''), Leaf (Tensor ex_tensor)])])"
proof -
  let ?c = "Mapping [(''weight'', Leaf (NotYetLoaded ex_placeholder)),
                     (''extra'', Sequence [Leaf (Other ''epoch''), Leaf (Tensor ex_tensor)])]"
  let ?c' = "Mapping [(''weight'', Leaf (Tensor ex_tensor)),
                      (''extra'', Sequence [Leaf (Other ''epoch''), Leaf (Tensor ex_tensor)])]"
  have p: "list_all produced_obj (leaves ?c)"
    by (simp add: produced_obj_def ex_produced)
  have e: "fst (materialize_tensors ?c ex_world) = Inr ?c'"
    by (simp add: materialize_tensors_def materialize_load_tensor_def ex_lookup_load_tensor)
  from materialize_tensors_replaces [OF p, of ex_world] e
  have "replaced ex_world ?c ?c'" by auto
  with p e show ?thesis by blast
qed




end
